theory Spec2Isabelle
  imports Complex_Main "HOL-Library.Word"
begin

section \<open>SceneManager: the texture registry and the materials list\<close>

text \<open>
  The C++ types are read as follows. \<open>GLuint\<close> and \<open>uint32_t\<close> are 32-bit words;
  \<open>int\<close> values that only count or index (at most 16 textures, a few materials) are
  integers, and the \<open>int\<close> parameters of \<open>LoadTorusMesh\<close>, which have no such bound, are
  32-bit words. The \<open>float\<close> values of the materials and of the meshes are real numbers
  (finite, without rounding); the \<open>float\<close> values of the camera, which come from the
  mouse and from public fields, are values of the type \<open>float\<close> below, with the
  infinities and NaN. \<open>std::string\<close> is a \<open>string\<close>. An access beyond the end of an array
  or vector, and an overflow of signed arithmetic, are \<open>error\<close> values.
\<close>

type_synonym GLuint = "32 word"

datatype error = OutOfBounds | SignedOverflow

datatype vec3 = Vec3 (vx: real) (vy: real) (vz: real)

text \<open>
  Modelled from the spec: SceneManager.h, which declares \<open>TEXTURE_INFO\<close>,
  \<open>OBJECT_MATERIAL\<close>, \<open>m_textureIDs\<close>, \<open>m_loadedTextures\<close> and \<open>m_objectMaterials\<close>, is
  not among the sources. The fields are the ones SceneManager.cpp reads and writes; the
  registry is the fixed array of 16 entries that the comments of SceneManager.cpp
  ("There are up to 16 slots", "Up to 16 textures can be loaded per scene") describe.
  The texture's \<open>ID\<close> is a \<open>GLuint\<close>: \<open>glDeleteTextures\<close> takes its address. The
  material's tag is named \<open>mtag\<close>, as a record field \<open>tag\<close> exists already.
\<close>

record TEXTURE_INFO =
  tag :: string
  ID :: GLuint

record OBJECT_MATERIAL =
  diffuseColor :: vec3
  specularColor :: vec3
  shininess :: real
  mtag :: string

definition TEXTURE_SLOTS :: nat where
  "TEXTURE_SLOTS = 16"

record SceneManager =
  m_textureIDs :: "TEXTURE_INFO list"
  m_loadedTextures :: int
  m_objectMaterials :: "OBJECT_MATERIAL list"

text \<open>
  The constructor: every slot of the registry gets the tag "/0" and the ID -1 (as a
  \<open>GLuint\<close>, all bits set), and no texture is loaded.
\<close>

definition SceneManager_init :: SceneManager where
  "SceneManager_init =
     \<lparr> m_textureIDs = replicate TEXTURE_SLOTS \<lparr> tag = ''/0'', ID = - 1 \<rparr>,
       m_loadedTextures = 0,
       m_objectMaterials = [] \<rparr>"

subsection \<open>FindTextureID and FindTextureSlot\<close>

text \<open>
  Both are the same \<open>while\<close> loop over \<open>index\<close> and \<open>bFound\<close>; the loop state is the
  triple of the result variable, \<open>index\<close> and \<open>bFound\<close>. \<open>tag.compare(tag) == 0\<close> is
  equality of strings. \<open>FindTextureID\<close> returns an \<open>int\<close>: the stored \<open>GLuint\<close> is
  converted, which \<open>sint\<close> does.
\<close>

function FindTextureID_loop :: "SceneManager \<Rightarrow> string \<Rightarrow> int \<Rightarrow> int \<Rightarrow> bool \<Rightarrow> error + int" where
  "FindTextureID_loop s t textureID index bFound =
     (if index < m_loadedTextures s \<and> bFound = False then
        (if \<not> (0 \<le> index \<and> index < int (length (m_textureIDs s))) then Inl OutOfBounds
         else if tag (m_textureIDs s ! nat index) = t
           then FindTextureID_loop s t (sint (ID (m_textureIDs s ! nat index))) index True
           else FindTextureID_loop s t textureID (index + 1) bFound)
      else Inr textureID)"
  by pat_completeness auto
termination
  by (relation "measure (\<lambda>(s, t, r, index, bFound).
        if bFound then 0 else nat (m_loadedTextures s - index) + 1)") auto

definition FindTextureID :: "SceneManager \<Rightarrow> string \<Rightarrow> error + int" where
  "FindTextureID s t = FindTextureID_loop s t (- 1) 0 False"

function FindTextureSlot_loop :: "SceneManager \<Rightarrow> string \<Rightarrow> int \<Rightarrow> int \<Rightarrow> bool \<Rightarrow> error + int" where
  "FindTextureSlot_loop s t textureSlot index bFound =
     (if index < m_loadedTextures s \<and> bFound = False then
        (if \<not> (0 \<le> index \<and> index < int (length (m_textureIDs s))) then Inl OutOfBounds
         else if tag (m_textureIDs s ! nat index) = t
           then FindTextureSlot_loop s t index index True
           else FindTextureSlot_loop s t textureSlot (index + 1) bFound)
      else Inr textureSlot)"
  by pat_completeness auto
termination
  by (relation "measure (\<lambda>(s, t, r, index, bFound).
        if bFound then 0 else nat (m_loadedTextures s - index) + 1)") auto

definition FindTextureSlot :: "SceneManager \<Rightarrow> string \<Rightarrow> error + int" where
  "FindTextureSlot s t = FindTextureSlot_loop s t (- 1) 0 False"

declare FindTextureID_loop.simps [simp del]
declare FindTextureSlot_loop.simps [simp del]

subsection \<open>FindMaterial\<close>

text \<open>
  The output parameter \<open>material\<close> is passed in and returned with the \<open>bool\<close>. On a
  match the loop copies three fields into it and leaves its tag alone. \<open>index\<close> stays
  below \<open>m_objectMaterials.size()\<close> at every read.
\<close>

function FindMaterial_loop ::
  "OBJECT_MATERIAL list \<Rightarrow> string \<Rightarrow> OBJECT_MATERIAL \<Rightarrow> nat \<Rightarrow> bool \<Rightarrow> OBJECT_MATERIAL" where
  "FindMaterial_loop mats t material index bFound =
     (if index < length mats \<and> bFound = False then
        (if mtag (mats ! index) = t
           then FindMaterial_loop mats t
                  (material\<lparr> diffuseColor := diffuseColor (mats ! index),
                             specularColor := specularColor (mats ! index),
                             shininess := shininess (mats ! index) \<rparr>) index True
           else FindMaterial_loop mats t material (index + 1) bFound)
      else material)"
  by pat_completeness auto
termination
  by (relation "measure (\<lambda>(mats, t, m, index, bFound).
        if bFound then 0 else length mats - index + 1)") auto

declare FindMaterial_loop.simps [simp del]

definition FindMaterial :: "SceneManager \<Rightarrow> string \<Rightarrow> OBJECT_MATERIAL \<Rightarrow> bool \<times> OBJECT_MATERIAL" where
  "FindMaterial s t material =
     (if length (m_objectMaterials s) = 0 then (False, material)
      else (True, FindMaterial_loop (m_objectMaterials s) t material 0 False))"

subsection \<open>CreateGLTexture, BindGLTextures and LoadSceneTextures\<close>

text \<open>
  The image decoder and OpenGL are external. \<open>stbi_load\<close> is a function from the file
  name to the decoded image, \<open>None\<close> where the C function returns a null pointer; of the
  image only the three numbers the code reads are kept. \<open>glGenTextures\<close> hands out the
  next texture name: \<open>gl_name k\<close> is the name of the \<open>k\<close>-th texture generated. Of the
  OpenGL state the model keeps the number of names generated, the active texture unit
  and the texture bound to \<open>GL_TEXTURE_2D\<close> on each unit; texture parameters and pixels
  are not kept. The lines written to \<open>std::cout\<close> are kept in order, one constructor
  per message.
\<close>

record stbi_image =
  img_width :: int
  img_height :: int
  img_colorChannels :: int

record env =
  stbi_load :: "string \<Rightarrow> stbi_image option"
  gl_name :: "nat \<Rightarrow> GLuint"

datatype cout_line =
    SuccessfullyLoadedImage string int int int
  | NotImplementedChannels int
  | CouldNotLoadImage string

record world =
  scene :: SceneManager
  gl_generated :: nat
  gl_active :: nat
  gl_bound :: "nat \<Rightarrow> GLuint"
  cout :: "cout_line list"

definition world_init :: world where
  "world_init =
     \<lparr> scene = SceneManager_init, gl_generated = 0, gl_active = 0, gl_bound = (\<lambda>unit. 0),
       cout = [] \<rparr>"

definition glBindTexture :: "GLuint \<Rightarrow> world \<Rightarrow> world" where
  "glBindTexture texture w = w\<lparr> gl_bound := (gl_bound w)(gl_active w := texture) \<rparr>"

definition glActiveTexture :: "nat \<Rightarrow> world \<Rightarrow> world" where
  "glActiveTexture unit w = w\<lparr> gl_active := unit \<rparr>"

text \<open>
  The registration at the end writes \<open>m_textureIDs[m_loadedTextures]\<close> with no test of
  the index: outside the array the write is \<open>OutOfBounds\<close>. On the path of an
  unsupported channel count the texture name has been generated and bound already, and
  the function returns before the texture is unbound and registered.
\<close>

definition CreateGLTexture :: "env \<Rightarrow> string \<Rightarrow> string \<Rightarrow> world \<Rightarrow> error + bool \<times> world" where
  "CreateGLTexture e filename tg w =
     (case stbi_load e filename of
        Some img \<Rightarrow>
          (let w = w\<lparr> cout := cout w @ [SuccessfullyLoadedImage filename (img_width img)
                                         (img_height img) (img_colorChannels img)] \<rparr>;
               textureID = gl_name e (gl_generated w);
               w = w\<lparr> gl_generated := gl_generated w + 1 \<rparr>;
               w = glBindTexture textureID w
           in if img_colorChannels img = 3 \<or> img_colorChannels img = 4 then
                (let w = glBindTexture 0 w;
                     n = m_loadedTextures (scene w);
                     ids = m_textureIDs (scene w)
                 in if 0 \<le> n \<and> n < int (length ids) then
                      Inr (True, w\<lparr> scene := (scene w)
                             \<lparr> m_textureIDs := ids[nat n := (ids ! nat n)\<lparr> ID := textureID, tag := tg \<rparr>],
                               m_loadedTextures := n + 1 \<rparr> \<rparr>)
                    else Inl OutOfBounds)
              else Inr (False, w\<lparr> cout := cout w @ [NotImplementedChannels (img_colorChannels img)] \<rparr>))
      | None \<Rightarrow> Inr (False, w\<lparr> cout := cout w @ [CouldNotLoadImage filename] \<rparr>))"

text \<open>
  \<open>BindGLTextures\<close> binds the loaded textures to the texture units 0, 1, ... in order;
  it reads \<open>m_textureIDs[i]\<close> for every \<open>i\<close> below \<open>m_loadedTextures\<close>.
\<close>

definition BindGLTextures :: "world \<Rightarrow> error + world" where
  "BindGLTextures w =
     (let n = m_loadedTextures (scene w); ids = m_textureIDs (scene w)
      in if n \<le> int (length ids)
         then Inr (fold (\<lambda>i w. glBindTexture (ID (ids ! i)) (glActiveTexture i w)) [0..<nat n] w)
         else Inl OutOfBounds)"

text \<open>
  \<open>LoadSceneTextures\<close> calls \<open>CreateGLTexture\<close> once for each entry of this list, in
  order, overwrites \<open>bReturn\<close> each time and never reads it, and then binds the textures.
\<close>

definition scene_textures :: "(string \<times> string) list" where
  "scene_textures =
     [(''textures/floor.png'', ''floor''),
      (''textures/wallpaper.jpg'', ''wallpaper''),
      (''textures/ceiling.jpg'', ''ceiling''),
      (''textures/soda1.png'', ''soda1''),
      (''textures/soda2.png'', ''soda2''),
      (''textures/sodatop.png'', ''soda_top''),
      (''textures/tekken.jpg'', ''tekken''),
      (''textures/arcade2.png'', ''arcade2''),
      (''textures/coinslot.png'', ''coin_slot''),
      (''textures/test2.png'', ''test''),
      (''textures/testt.jpg'', ''testt''),
      (''textures/yellow.png'', ''yellow''),
      (''textures/linen.jpg'', ''linen''),
      (''textures/leather.jpg'', ''leather''),
      (''textures/metal2.jpg'', ''metal2''),
      (''textures/aluminum.png'', ''aluminum'')]"

text \<open>
  A run of \<open>CreateGLTexture\<close> calls, each result discarded as \<open>LoadSceneTextures\<close> does;
  the returned list holds the \<open>bool\<close> of every call.
\<close>

fun CreateGLTextures :: "env \<Rightarrow> (string \<times> string) list \<Rightarrow> world \<Rightarrow> error + bool list \<times> world" where
  "CreateGLTextures e [] w = Inr ([], w)"
| "CreateGLTextures e ((filename, tg) # rest) w =
     (case CreateGLTexture e filename tg w of
        Inl err \<Rightarrow> Inl err
      | Inr (bReturn, w') \<Rightarrow>
          (case CreateGLTextures e rest w' of
             Inl err \<Rightarrow> Inl err
           | Inr (bs, w'') \<Rightarrow> Inr (bReturn # bs, w'')))"

definition LoadSceneTextures :: "env \<Rightarrow> world \<Rightarrow> error + world" where
  "LoadSceneTextures e w =
     (case CreateGLTextures e scene_textures w of
        Inl err \<Rightarrow> Inl err
      | Inr (bs, w') \<Rightarrow> BindGLTextures w')"

section \<open>Vectors of the mesh data\<close>

text \<open>
  \<open>vec3\<close> holds the values of the literal tables, of the generated meshes and of the
  materials, with the operations of GLM written out on real numbers.
  \<open>glm::normalize v\<close> is \<open>v * inversesqrt (dot v v)\<close>.
\<close>

definition vec3_add :: "vec3 \<Rightarrow> vec3 \<Rightarrow> vec3" where
  "vec3_add a b = Vec3 (vx a + vx b) (vy a + vy b) (vz a + vz b)"

definition vec3_sub :: "vec3 \<Rightarrow> vec3 \<Rightarrow> vec3" where
  "vec3_sub a b = Vec3 (vx a - vx b) (vy a - vy b) (vz a - vz b)"

definition vec3_scale :: "vec3 \<Rightarrow> real \<Rightarrow> vec3" where
  "vec3_scale a k = Vec3 (vx a * k) (vy a * k) (vz a * k)"

definition dot :: "vec3 \<Rightarrow> vec3 \<Rightarrow> real" where
  "dot a b = vx a * vx b + vy a * vy b + vz a * vz b"

definition normalize :: "vec3 \<Rightarrow> vec3" where
  "normalize v = vec3_scale v (1 / sqrt (dot v v))"

section \<open>Floating-point values of the camera\<close>

text \<open>
  The camera and the view manager compute on \<open>float\<close> values that come from the mouse,
  the clock and public fields, so a value here is a finite number, an infinity or NaN.
  The arithmetic follows IEEE 754 binary32 on the infinities and on NaN: NaN is the
  result of every operation on NaN, of adding opposite infinities, of zero times an
  infinity, of zero by zero and of an infinity by an infinity; every ordered comparison
  with NaN is false. A finite result is the real number, unless its magnitude reaches
  \<open>FLT_OVERFLOW\<close>, the least magnitude that round-to-nearest takes to an infinity
  (\<open>FLT_MAX\<close> plus half a unit in the last place). Rounding below that bound and the sign
  of zero (a zero divisor counts as positive) are not modelled, and the \<open>double\<close>
  arguments of the GLFW callbacks are held in the same type.
\<close>

datatype float = Finite real | PosInf | NegInf | NaN

definition FLT_OVERFLOW :: real where
  "FLT_OVERFLOW = 2 ^ 128 - 2 ^ 103"

definition fl :: "real \<Rightarrow> float" where
  "fl r = (if FLT_OVERFLOW \<le> r then PosInf
          else if r \<le> - FLT_OVERFLOW then NegInf
          else Finite r)"

instantiation float :: "{plus, uminus, minus, times, inverse, ord}"
begin

fun plus_float :: "float \<Rightarrow> float \<Rightarrow> float" where
  "plus_float NaN b = NaN"
| "plus_float a NaN = NaN"
| "plus_float (Finite a) (Finite b) = fl (a + b)"
| "plus_float PosInf NegInf = NaN"
| "plus_float NegInf PosInf = NaN"
| "plus_float PosInf b = PosInf"
| "plus_float a PosInf = PosInf"
| "plus_float NegInf b = NegInf"
| "plus_float a NegInf = NegInf"

fun uminus_float :: "float \<Rightarrow> float" where
  "uminus_float (Finite a) = Finite (- a)"
| "uminus_float PosInf = NegInf"
| "uminus_float NegInf = PosInf"
| "uminus_float NaN = NaN"

definition minus_float :: "float \<Rightarrow> float \<Rightarrow> float" where
  "minus_float a b = a + (- b)"

fun times_float :: "float \<Rightarrow> float \<Rightarrow> float" where
  "times_float NaN b = NaN"
| "times_float a NaN = NaN"
| "times_float (Finite a) (Finite b) = fl (a * b)"
| "times_float PosInf (Finite b) = (if b = 0 then NaN else if 0 < b then PosInf else NegInf)"
| "times_float NegInf (Finite b) = (if b = 0 then NaN else if 0 < b then NegInf else PosInf)"
| "times_float (Finite a) PosInf = (if a = 0 then NaN else if 0 < a then PosInf else NegInf)"
| "times_float (Finite a) NegInf = (if a = 0 then NaN else if 0 < a then NegInf else PosInf)"
| "times_float PosInf PosInf = PosInf"
| "times_float PosInf NegInf = NegInf"
| "times_float NegInf PosInf = NegInf"
| "times_float NegInf NegInf = PosInf"

fun divide_float :: "float \<Rightarrow> float \<Rightarrow> float" where
  "divide_float NaN b = NaN"
| "divide_float a NaN = NaN"
| "divide_float (Finite a) (Finite b) =
     (if b = 0 then (if a = 0 then NaN else if 0 < a then PosInf else NegInf)
      else fl (a / b))"
| "divide_float (Finite a) b = Finite 0"
| "divide_float PosInf (Finite b) = (if 0 \<le> b then PosInf else NegInf)"
| "divide_float NegInf (Finite b) = (if 0 \<le> b then NegInf else PosInf)"
| "divide_float a b = NaN"

definition inverse_float :: "float \<Rightarrow> float" where
  "inverse_float a = divide (Finite 1) a"

fun less_float :: "float \<Rightarrow> float \<Rightarrow> bool" where
  "less_float (Finite a) (Finite b) = (a < b)"
| "less_float (Finite a) PosInf = True"
| "less_float NegInf (Finite b) = True"
| "less_float NegInf PosInf = True"
| "less_float a b = False"

fun less_eq_float :: "float \<Rightarrow> float \<Rightarrow> bool" where
  "less_eq_float (Finite a) (Finite b) = (a \<le> b)"
| "less_eq_float (Finite a) PosInf = True"
| "less_eq_float NegInf (Finite b) = True"
| "less_eq_float NegInf PosInf = True"
| "less_eq_float PosInf PosInf = True"
| "less_eq_float NegInf NegInf = True"
| "less_eq_float a b = False"

instance ..

end

fun float_sqrt :: "float \<Rightarrow> float" where
  "float_sqrt (Finite a) = (if a < 0 then NaN else Finite (sqrt a))"
| "float_sqrt PosInf = PosInf"
| "float_sqrt a = NaN"

fun float_cos :: "float \<Rightarrow> float" where
  "float_cos (Finite a) = Finite (cos a)"
| "float_cos a = NaN"

fun float_sin :: "float \<Rightarrow> float" where
  "float_sin (Finite a) = Finite (sin a)"
| "float_sin a = NaN"

text \<open>
  \<open>glm::vec3\<close> with float components, and the operations of GLM on it.
  \<open>glm_vec3 a b c\<close> is the constructor call with three literals.
\<close>

datatype fvec3 = FVec3 (fx: float) (fy: float) (fz: float)

definition glm_vec3 :: "real \<Rightarrow> real \<Rightarrow> real \<Rightarrow> fvec3" where
  "glm_vec3 a b c = FVec3 (Finite a) (Finite b) (Finite c)"

definition fvec3_add :: "fvec3 \<Rightarrow> fvec3 \<Rightarrow> fvec3" where
  "fvec3_add a b = FVec3 (fx a + fx b) (fy a + fy b) (fz a + fz b)"

definition fvec3_sub :: "fvec3 \<Rightarrow> fvec3 \<Rightarrow> fvec3" where
  "fvec3_sub a b = FVec3 (fx a - fx b) (fy a - fy b) (fz a - fz b)"

definition fvec3_scale :: "fvec3 \<Rightarrow> float \<Rightarrow> fvec3" where
  "fvec3_scale a k = FVec3 (fx a * k) (fy a * k) (fz a * k)"

definition fvec3_dot :: "fvec3 \<Rightarrow> fvec3 \<Rightarrow> float" where
  "fvec3_dot a b = fx a * fx b + fy a * fy b + fz a * fz b"

definition fvec3_cross :: "fvec3 \<Rightarrow> fvec3 \<Rightarrow> fvec3" where
  "fvec3_cross a b =
     FVec3 (fy a * fz b - fy b * fz a) (fz a * fx b - fz b * fx a) (fx a * fy b - fx b * fy a)"

definition fvec3_normalize :: "fvec3 \<Rightarrow> fvec3" where
  "fvec3_normalize v = fvec3_scale v (Finite 1 / float_sqrt (fvec3_dot v v))"

definition radians :: "float \<Rightarrow> float" where
  "radians degrees = degrees * Finite 0.01745329251994329576923690768489"

section \<open>Camera (camera.h)\<close>

datatype Camera_Movement = FORWARD | BACKWARD | LEFT | RIGHT | UP | DOWN

record Camera =
  Position :: fvec3
  Front :: fvec3
  Up :: fvec3
  Right :: fvec3
  WorldUp :: fvec3
  Yaw :: float
  Pitch :: float
  MovementSpeed :: float
  MouseSensitivity :: float
  Zoom :: float

definition updateCameraVectors :: "Camera \<Rightarrow> Camera" where
  "updateCameraVectors c =
     (let front = FVec3 (float_cos (radians (Yaw c)) * float_cos (radians (Pitch c)))
                        (float_sin (radians (Pitch c)))
                        (float_sin (radians (Yaw c)) * float_cos (radians (Pitch c)));
          c1 = c\<lparr> Front := fvec3_normalize front \<rparr>;
          c2 = c1\<lparr> Right := fvec3_normalize (fvec3_cross (Front c1) (WorldUp c1)) \<rparr>
      in c2\<lparr> Up := fvec3_normalize (fvec3_cross (Right c2) (Front c2)) \<rparr>)"

text \<open>
  The constructor with vectors. \<open>Up\<close> and \<open>Right\<close> have no value before
  \<open>updateCameraVectors\<close> assigns them; the zero vector stands for that.
\<close>

definition Camera_new :: "fvec3 \<Rightarrow> fvec3 \<Rightarrow> float \<Rightarrow> float \<Rightarrow> Camera" where
  "Camera_new position up yaw pitch =
     updateCameraVectors
       \<lparr> Position = position, Front = glm_vec3 0 0 (- 1), Up = glm_vec3 0 0 0,
         Right = glm_vec3 0 0 0, WorldUp = up, Yaw = yaw, Pitch = pitch,
         MovementSpeed = Finite 2.5, MouseSensitivity = Finite 0.1, Zoom = Finite 45 \<rparr>"

definition Camera_default :: Camera where
  "Camera_default = Camera_new (glm_vec3 0 0 0) (glm_vec3 0 1 0) (Finite (- 90)) (Finite 0)"

definition ProcessKeyboard :: "Camera_Movement \<Rightarrow> float \<Rightarrow> Camera \<Rightarrow> Camera" where
  "ProcessKeyboard direction deltaTime c =
     (let velocity = MovementSpeed c * deltaTime;
          c = (if direction = FORWARD
               then c\<lparr> Position := fvec3_add (Position c) (fvec3_scale (Front c) velocity) \<rparr> else c);
          c = (if direction = BACKWARD
               then c\<lparr> Position := fvec3_sub (Position c) (fvec3_scale (Front c) velocity) \<rparr> else c);
          c = (if direction = LEFT
               then c\<lparr> Position := fvec3_sub (Position c) (fvec3_scale (Right c) velocity) \<rparr> else c);
          c = (if direction = RIGHT
               then c\<lparr> Position := fvec3_add (Position c) (fvec3_scale (Right c) velocity) \<rparr> else c);
          c = (if direction = UP
               then c\<lparr> Position := fvec3_add (Position c) (fvec3_scale (Up c) velocity) \<rparr> else c);
          c = (if direction = DOWN
               then c\<lparr> Position := fvec3_sub (Position c) (fvec3_scale (Up c) velocity) \<rparr> else c)
      in c)"

text \<open>
  The two tests of \<open>ProcessMouseMovement\<close> are \<open>Pitch > 89.0f\<close> and \<open>Pitch < -89.0f\<close>:
  both are false when \<open>Pitch\<close> is NaN.
\<close>

definition ProcessMouseMovement :: "float \<Rightarrow> float \<Rightarrow> bool \<Rightarrow> Camera \<Rightarrow> Camera" where
  "ProcessMouseMovement xoffset yoffset constrainPitch c =
     (let xoffset = xoffset * MouseSensitivity c;
          yoffset = yoffset * MouseSensitivity c;
          c = c\<lparr> Yaw := Yaw c + xoffset \<rparr>;
          c = c\<lparr> Pitch := Pitch c + yoffset \<rparr>;
          c = (if constrainPitch then
                 (let c = (if Pitch c > Finite 89 then c\<lparr> Pitch := Finite 89 \<rparr> else c);
                      c = (if Pitch c < Finite (- 89) then c\<lparr> Pitch := Finite (- 89) \<rparr> else c)
                  in c)
               else c)
      in updateCameraVectors c)"

text \<open>A sequence of mouse movements, every one with \<open>constrainPitch\<close> true.\<close>

definition mouse_movements :: "(float \<times> float) list \<Rightarrow> Camera \<Rightarrow> Camera" where
  "mouse_movements moves c = fold (\<lambda>(xoffset, yoffset). ProcessMouseMovement xoffset yoffset True) moves c"

text \<open>
  For a sequence of such calls: in every call the sum that the call stores in \<open>Pitch\<close>,
  \<open>Pitch + yoffset * MouseSensitivity\<close>, is not NaN.
\<close>

fun pitch_sums_not_NaN :: "(float \<times> float) list \<Rightarrow> Camera \<Rightarrow> bool" where
  "pitch_sums_not_NaN [] c = True"
| "pitch_sums_not_NaN ((xoffset, yoffset) # moves) c =
     (Pitch c + yoffset * MouseSensitivity c \<noteq> NaN \<and>
      pitch_sums_not_NaN moves (ProcessMouseMovement xoffset yoffset True c))"

section \<open>ViewManager (ViewManager.cpp)\<close>

text \<open>
  The state is the camera and the variables of the anonymous namespace, with the
  window's close flag. \<open>glfwGetKey(m_pWindow, k) == GLFW_PRESS\<close> is the input
  \<open>pressed k\<close>. A matrix is the GLM call that builds it, with its arguments.
\<close>

datatype key = KEY_ESCAPE | KEY_W | KEY_S | KEY_A | KEY_D | KEY_Q | KEY_E
  | KEY_O | KEY_I | KEY_U | KEY_P

datatype mat4 =
    lookAt fvec3 fvec3 fvec3
  | perspective float float float float
  | ortho float float float float float float

datatype uniform = Mat4Value mat4 | Vec3Value fvec3

record ViewManager =
  g_pCamera :: Camera
  gLastX :: float
  gLastY :: float
  gFirstMouse :: bool
  gDeltaTime :: float
  gLastFrame :: float
  bOrthographicProjection :: bool
  windowShouldClose :: bool

definition WINDOW_WIDTH :: float where
  "WINDOW_WIDTH = Finite 1500"

definition WINDOW_HEIGHT :: float where
  "WINDOW_HEIGHT = Finite 1200"

text \<open>The initial values of the globals, and the constructor's camera.\<close>

definition ViewManager_init :: ViewManager where
  "ViewManager_init =
     \<lparr> g_pCamera = Camera_default\<lparr> Position := glm_vec3 0 10 12, Front := glm_vec3 0 (- 0.5) (- 2),
                                   Up := glm_vec3 0 1 0, Zoom := Finite 80,
                                   MovementSpeed := Finite 20 \<rparr>,
       gLastX = WINDOW_WIDTH / Finite 2,
       gLastY = WINDOW_HEIGHT / Finite 2,
       gFirstMouse = True,
       gDeltaTime = Finite 0,
       gLastFrame = Finite 0,
       bOrthographicProjection = False,
       windowShouldClose = False \<rparr>"

text \<open>
  \<open>ProcessKeyboardEvents\<close> is a sequence of independent \<open>if\<close> statements, one for each
  key and in the order of \<open>keys_in_order\<close>; \<open>key_action k\<close> is the body of the statement
  for the key \<open>k\<close>.
\<close>

fun key_action :: "key \<Rightarrow> ViewManager \<Rightarrow> ViewManager" where
  "key_action KEY_ESCAPE v = v\<lparr> windowShouldClose := True \<rparr>"
| "key_action KEY_W v = v\<lparr> g_pCamera := ProcessKeyboard FORWARD (gDeltaTime v) (g_pCamera v) \<rparr>"
| "key_action KEY_S v = v\<lparr> g_pCamera := ProcessKeyboard BACKWARD (gDeltaTime v) (g_pCamera v) \<rparr>"
| "key_action KEY_A v = v\<lparr> g_pCamera := ProcessKeyboard LEFT (gDeltaTime v) (g_pCamera v) \<rparr>"
| "key_action KEY_D v = v\<lparr> g_pCamera := ProcessKeyboard RIGHT (gDeltaTime v) (g_pCamera v) \<rparr>"
| "key_action KEY_Q v = v\<lparr> g_pCamera := ProcessKeyboard UP (gDeltaTime v) (g_pCamera v) \<rparr>"
| "key_action KEY_E v = v\<lparr> g_pCamera := ProcessKeyboard DOWN (gDeltaTime v) (g_pCamera v) \<rparr>"
| "key_action KEY_O v =
     v\<lparr> bOrthographicProjection := True,
        g_pCamera := (g_pCamera v)\<lparr> Position := glm_vec3 0 5 12, Up := glm_vec3 0 1 0,
                                   Front := glm_vec3 0 0 (- 1) \<rparr> \<rparr>"
| "key_action KEY_I v =
     v\<lparr> bOrthographicProjection := True,
        g_pCamera := (g_pCamera v)\<lparr> Position := glm_vec3 12 5 0, Up := glm_vec3 0 1 0,
                                   Front := glm_vec3 (- 1) 0 0 \<rparr> \<rparr>"
| "key_action KEY_U v =
     v\<lparr> bOrthographicProjection := True,
        g_pCamera := (g_pCamera v)\<lparr> Position := glm_vec3 0 16 2, Up := glm_vec3 (- 1) 0 0,
                                   Front := glm_vec3 0 (- 1) 0 \<rparr> \<rparr>"
| "key_action KEY_P v =
     v\<lparr> bOrthographicProjection := False,
        g_pCamera := (g_pCamera v)\<lparr> Position := glm_vec3 0 10 12, Front := glm_vec3 0 (- 0.5) (- 2),
                                   Up := glm_vec3 0 1 0, Zoom := Finite 80 \<rparr> \<rparr>"

definition keys_in_order :: "key list" where
  "keys_in_order = [KEY_ESCAPE, KEY_W, KEY_S, KEY_A, KEY_D, KEY_Q, KEY_E,
                    KEY_O, KEY_I, KEY_U, KEY_P]"

definition ProcessKeyboardEvents :: "(key \<Rightarrow> bool) \<Rightarrow> ViewManager \<Rightarrow> ViewManager" where
  "ProcessKeyboardEvents pressed v =
     fold (\<lambda>k v. if pressed k then key_action k v else v) keys_in_order v"

definition GetViewMatrix :: "Camera \<Rightarrow> mat4" where
  "GetViewMatrix c = lookAt (Position c) (fvec3_add (Position c) (Front c)) (Up c)"

text \<open>
  \<open>PrepareSceneView\<close> takes the value of \<open>glfwGetTime()\<close>, the keys and whether
  \<open>m_pShaderManager\<close> is non-null. It returns the new state, the projection it built
  and the uniforms it passed to the shader manager.
\<close>

definition PrepareSceneView ::
  "bool \<Rightarrow> float \<Rightarrow> (key \<Rightarrow> bool) \<Rightarrow> ViewManager \<Rightarrow> ViewManager \<times> mat4 \<times> (string \<times> uniform) list" where
  "PrepareSceneView shaderManager currentFrame pressed v =
     (let v = v\<lparr> gDeltaTime := currentFrame - gLastFrame v \<rparr>;
          v = v\<lparr> gLastFrame := currentFrame \<rparr>;
          v = ProcessKeyboardEvents pressed v;
          view = GetViewMatrix (g_pCamera v);
          zoom = Zoom (g_pCamera v);
          projection =
            (if bOrthographicProjection v = False
             then perspective (radians zoom) (WINDOW_WIDTH / WINDOW_HEIGHT) (Finite 0.1) (Finite 100)
             else ortho (- WINDOW_WIDTH / (Finite 2 * zoom)) (WINDOW_WIDTH / (Finite 2 * zoom))
                        (- WINDOW_HEIGHT / (Finite 2 * zoom)) (WINDOW_HEIGHT / (Finite 2 * zoom))
                        (Finite 0.1) (Finite 100))
      in (v, projection,
          if shaderManager
          then [(''view'', Mat4Value view), (''projection'', Mat4Value projection),
                (''viewPosition'', Vec3Value (Position (g_pCamera v)))]
          else []))"

text \<open>
  The GLFW callbacks. \<open>GLFW_MOUSE_BUTTON_RIGHT\<close> and \<open>GLFW_PRESS\<close> are both 1, and
  \<open>bool rightButtonPressed = button\<close> is then true. \<open>Zoom != 45.0f\<close> is true of NaN.
\<close>

definition Mouse_Button_Callback :: "int \<Rightarrow> int \<Rightarrow> ViewManager \<Rightarrow> ViewManager" where
  "Mouse_Button_Callback button action v =
     (if button = 1 \<and> action = 1 then
        (let rightButtonPressed = (button \<noteq> 0); c = g_pCamera v
         in if rightButtonPressed \<and> Zoom c \<noteq> Finite 45
              then v\<lparr> g_pCamera := c\<lparr> Zoom := Finite 45 \<rparr> \<rparr>
            else if rightButtonPressed \<and> Zoom c = Finite 45
              then v\<lparr> g_pCamera := c\<lparr> Zoom := Finite 80 \<rparr> \<rparr>
            else v)
      else v)"

definition Mouse_Scroll_Wheel_Callback :: "float \<Rightarrow> float \<Rightarrow> ViewManager \<Rightarrow> ViewManager" where
  "Mouse_Scroll_Wheel_Callback xOffset yOffset v =
     (let c = g_pCamera v;
          c = c\<lparr> MovementSpeed := MovementSpeed c + yOffset \<rparr>;
          c = (if MovementSpeed c < Finite 1 then c\<lparr> MovementSpeed := Finite 1 \<rparr> else c);
          c = (if MovementSpeed c > Finite 45 then c\<lparr> MovementSpeed := Finite 45 \<rparr> else c)
      in v\<lparr> g_pCamera := c \<rparr>)"

definition Mouse_Position_Callback :: "float \<Rightarrow> float \<Rightarrow> ViewManager \<Rightarrow> ViewManager" where
  "Mouse_Position_Callback xMousePos yMousePos v =
     (let v = (if gFirstMouse v
               then v\<lparr> gLastX := xMousePos, gLastY := yMousePos, gFirstMouse := False \<rparr>
               else v);
          xOffset = xMousePos - gLastX v;
          yOffset = gLastY v - yMousePos;
          v = v\<lparr> gLastX := xMousePos, gLastY := yMousePos \<rparr>
      in v\<lparr> g_pCamera := ProcessMouseMovement xOffset yOffset True (g_pCamera v) \<rparr>)"

text \<open>\<open>Window_Resize_Callback\<close> only calls \<open>glViewport\<close>: the state stays as it is.\<close>

definition Window_Resize_Callback :: "int \<Rightarrow> int \<Rightarrow> ViewManager \<Rightarrow> ViewManager" where
  "Window_Resize_Callback w h v = v"

text \<open>
  Everything that runs after start-up is one of these events: the frame's
  \<open>PrepareSceneView\<close>, or a callback.
\<close>

datatype event =
    Frame bool float "key \<Rightarrow> bool"
  | MouseButton int int
  | MouseScroll float float
  | MousePosition float float
  | WindowResize int int

fun step :: "event \<Rightarrow> ViewManager \<Rightarrow> ViewManager" where
  "step (Frame shaderManager currentFrame pressed) v =
     fst (PrepareSceneView shaderManager currentFrame pressed v)"
| "step (MouseButton button action) v = Mouse_Button_Callback button action v"
| "step (MouseScroll xOffset yOffset) v = Mouse_Scroll_Wheel_Callback xOffset yOffset v"
| "step (MousePosition xMousePos yMousePos) v = Mouse_Position_Callback xMousePos yMousePos v"
| "step (WindowResize w h) v = Window_Resize_Callback w h v"

section \<open>ShapeMeshes (ShapeMeshes.cpp)\<close>

text \<open>
  Modelled from the spec: ShapeMeshes.h, which declares \<open>GLMesh\<close>, is not among the
  sources. A mesh here is what a \<open>Load...Mesh\<close> method hands to OpenGL and stores: the
  interleaved vertex buffer (position, normal and texture coordinate of each vertex),
  the index buffer (empty where the method uploads none) and the two counts \<open>nVertices\<close>
  and \<open>nIndices\<close> that the methods assign. The handles of the GPU objects are left out.
  Indices are the \<open>int\<close> values the code computes, before their conversion to \<open>GLuint\<close>.
\<close>

record GLMesh =
  vertex_buffer :: "real list"
  index_buffer :: "int list"
  nVertices :: nat
  nIndices :: nat

definition Pi :: real where
  "Pi = 3.141592653589793"

definition FloatsPerVertex :: nat where
  "FloatsPerVertex = 3"

definition FloatsPerNormal :: nat where
  "FloatsPerNormal = 3"

definition FloatsPerUV :: nat where
  "FloatsPerUV = 2"

text \<open>
  \<open>SetShaderMemoryLayout\<close> gives the layout of a buffer: the stride is
  \<open>FloatsPerVertex + FloatsPerNormal + FloatsPerUV\<close> floats, the position starts at
  offset 0 of a vertex, the normal at offset \<open>FloatsPerVertex\<close>, the texture coordinate at
  offset \<open>FloatsPerVertex + FloatsPerNormal\<close>.
\<close>

definition stride :: nat where
  "stride = FloatsPerVertex + FloatsPerNormal + FloatsPerUV"

definition vertex_position :: "real list \<Rightarrow> nat \<Rightarrow> vec3" where
  "vertex_position buf k = Vec3 (buf ! (stride * k)) (buf ! (stride * k + 1)) (buf ! (stride * k + 2))"

definition vertex_normal :: "real list \<Rightarrow> nat \<Rightarrow> vec3" where
  "vertex_normal buf k =
     Vec3 (buf ! (stride * k + FloatsPerVertex)) (buf ! (stride * k + FloatsPerVertex + 1))
          (buf ! (stride * k + FloatsPerVertex + 2))"


definition vec3_length :: "vec3 \<Rightarrow> real" where
  "vec3_length v = sqrt (dot v v)"

subsection \<open>LoadBoxMesh\<close>

definition BoxMesh_verts :: "real list" where
  "BoxMesh_verts =
     [0.5, 0.5, - 0.5, 0, 0, - 1, 0, 1,
      0.5, - 0.5, - 0.5, 0, 0, - 1, 0, 0,
      - 0.5, - 0.5, - 0.5, 0, 0, - 1, 1, 0,
      - 0.5, 0.5, - 0.5, 0, 0, - 1, 1, 1,
      - 0.5, - 0.5, 0.5, 0, - 1, 0, 0, 1,
      - 0.5, - 0.5, - 0.5, 0, - 1, 0, 0, 0,
      0.5, - 0.5, - 0.5, 0, - 1, 0, 1, 0,
      0.5, - 0.5, 0.5, 0, - 1, 0, 1, 1,
      - 0.5, 0.5, - 0.5, - 1, 0, 0, 0, 1,
      - 0.5, - 0.5, - 0.5, - 1, 0, 0, 0, 0,
      - 0.5, - 0.5, 0.5, - 1, 0, 0, 1, 0,
      - 0.5, 0.5, 0.5, - 1, 0, 0, 1, 1,
      0.5, 0.5, 0.5, 1, 0, 0, 0, 1,
      0.5, - 0.5, 0.5, 1, 0, 0, 0, 0,
      0.5, - 0.5, - 0.5, 1, 0, 0, 1, 0,
      0.5, 0.5, - 0.5, 1, 0, 0, 1, 1,
      - 0.5, 0.5, - 0.5, 0, 1, 0, 0, 1,
      - 0.5, 0.5, 0.5, 0, 1, 0, 0, 0,
      0.5, 0.5, 0.5, 0, 1, 0, 1, 0,
      0.5, 0.5, - 0.5, 0, 1, 0, 1, 1,
      - 0.5, 0.5, 0.5, 0, 0, 1, 0, 1,
      - 0.5, - 0.5, 0.5, 0, 0, 1, 0, 0,
      0.5, - 0.5, 0.5, 0, 0, 1, 1, 0,
      0.5, 0.5, 0.5, 0, 0, 1, 1, 1]"

definition BoxMesh_indices :: "int list" where
  "BoxMesh_indices =
     [0, 1, 2, 0, 3, 2,
      4, 5, 6, 4, 7, 6,
      8, 9, 10, 8, 11, 10,
      12, 13, 14, 12, 15, 14,
      16, 17, 18, 16, 19, 18,
      20, 21, 22, 20, 23, 22]"

definition LoadBoxMesh :: GLMesh where
  "LoadBoxMesh =
     \<lparr> vertex_buffer = BoxMesh_verts,
       index_buffer = BoxMesh_indices,
       nVertices = length BoxMesh_verts div (FloatsPerVertex + FloatsPerNormal + FloatsPerUV),
       nIndices = length BoxMesh_indices \<rparr>"

text \<open>
  The index buffer draws the box face by face: six indices (two triangles) for each of
  the faces Back, Bottom, Left, Right, Top, Front. \<open>face_vertices f\<close> are the vertices
  that the \<open>f\<close>-th group of six indices names.
\<close>

definition face_vertices :: "GLMesh \<Rightarrow> nat \<Rightarrow> nat list" where
  "face_vertices mesh f = remdups (map nat (take 6 (drop (6 * f) (index_buffer mesh))))"

definition centroid :: "real list \<Rightarrow> nat list \<Rightarrow> vec3" where
  "centroid buf ks =
     vec3_scale (foldr vec3_add (map (vertex_position buf) ks) (Vec3 0 0 0)) (1 / real (length ks))"

fun axis_unit :: "vec3 \<Rightarrow> bool" where
  "axis_unit (Vec3 a b c) =
     ((\<bar>a\<bar> = 1 \<and> b = 0 \<and> c = 0) \<or> (a = 0 \<and> \<bar>b\<bar> = 1 \<and> c = 0) \<or> (a = 0 \<and> b = 0 \<and> \<bar>c\<bar> = 1))"

subsection \<open>LoadSphereMesh\<close>

text \<open>
  The two nested \<open>for\<close> loops push eight floats for every pair \<open>(lat, lon)\<close>, \<open>lat\<close> in
  the outer loop; the index loops push six indices for every quad.
\<close>

definition SphereMesh_vertex :: "int \<Rightarrow> int \<Rightarrow> real \<Rightarrow> int \<Rightarrow> int \<Rightarrow> real list" where
  "SphereMesh_vertex latitudeSegments longitudeSegments radius lat lon =
     (let theta = real_of_int lat * Pi / real_of_int latitudeSegments;
          sinTheta = sin theta;
          cosTheta = cos theta;
          phi = real_of_int lon * 2 * Pi / real_of_int longitudeSegments;
          sinPhi = sin phi;
          cosPhi = cos phi;
          x = radius * sinTheta * cosPhi;
          y = radius * cosTheta;
          z = radius * sinTheta * sinPhi;
          nx = sinTheta * cosPhi;
          ny = cosTheta;
          nz = sinTheta * sinPhi;
          u = 1 - real_of_int lon / real_of_int longitudeSegments;
          v = 1 - real_of_int lat / real_of_int latitudeSegments
      in [x, y, z, nx, ny, nz, u, v])"

definition SphereMesh_quad :: "int \<Rightarrow> int \<Rightarrow> int \<Rightarrow> int list" where
  "SphereMesh_quad longitudeSegments lat lon =
     (let first = lat * (longitudeSegments + 1) + lon;
          second = first + longitudeSegments + 1
      in [first, second, first + 1, second, second + 1, first + 1])"

definition LoadSphereMesh :: "int \<Rightarrow> int \<Rightarrow> real \<Rightarrow> GLMesh" where
  "LoadSphereMesh latitudeSegments longitudeSegments radius =
     (let vertices =
            concat (map (\<lambda>lat.
              concat (map (\<lambda>lon. SphereMesh_vertex latitudeSegments longitudeSegments radius lat lon)
                        [0..longitudeSegments]))
              [0..latitudeSegments]);
          indices =
            concat (map (\<lambda>lat.
              concat (map (\<lambda>lon. SphereMesh_quad longitudeSegments lat lon)
                        [0..longitudeSegments - 1]))
              [0..latitudeSegments - 1])
      in \<lparr> vertex_buffer = vertices,
           index_buffer = indices,
           nVertices = length vertices div 8,
           nIndices = length indices \<rparr>)"

subsection \<open>LoadTaperedCylinderMesh and DrawTaperedCylinderMesh\<close>

text \<open>
  The array \<open>verts\<close> is written in three parts, under the comments "cylinder bottom",
  "cylinder top" and "cylinder body".
\<close>

definition TaperedCylinder_bottom :: "real list" where
  "TaperedCylinder_bottom =
     [1, 0, 0, 0, - 1, 0, 0.5, 1,
      0.98, 0, - 0.17, 0, - 1, 0, 0.41, 0.983,
      0.94, 0, - 0.34, 0, - 1, 0, 0.33, 0.96,
      0.87, 0, - 0.5, 0, - 1, 0, 0.25, 0.92,
      0.77, 0, - 0.64, 0, - 1, 0, 0.17, 0.87,
      0.64, 0, - 0.77, 0, - 1, 0, 0.13, 0.83,
      0.5, 0, - 0.87, 0, - 1, 0, 0.08, 0.77,
      0.34, 0, - 0.94, 0, - 1, 0, 0.04, 0.68,
      0.17, 0, - 0.98, 0, - 1, 0, 0.017, 0.6,
      0, 0, - 1, 0, - 1, 0, 0, 0.5,
      - 0.17, 0, - 0.98, 0, - 1, 0, 0.017, 0.41,
      - 0.34, 0, - 0.94, 0, - 1, 0, 0.04, 0.33,
      - 0.5, 0, - 0.87, 0, - 1, 0, 0.08, 0.25,
      - 0.64, 0, - 0.77, 0, - 1, 0, 0.13, 0.17,
      - 0.77, 0, - 0.64, 0, - 1, 0, 0.17, 0.13,
      - 0.87, 0, - 0.5, 0, - 1, 0, 0.25, 0.08,
      - 0.94, 0, - 0.34, 0, - 1, 0, 0.33, 0.04,
      - 0.98, 0, - 0.17, 0, - 1, 0, 0.41, 0.017,
      - 1, 0, 0, 0, - 1, 0, 0.5, 0,
      - 0.98, 0, 0.17, 0, - 1, 0, 0.6, 0.017,
      - 0.94, 0, 0.34, 0, - 1, 0, 0.68, 0.04,
      - 0.87, 0, 0.5, 0, - 1, 0, 0.77, 0.08,
      - 0.77, 0, 0.64, 0, - 1, 0, 0.83, 0.13,
      - 0.64, 0, 0.77, 0, - 1, 0, 0.87, 0.17,
      - 0.5, 0, 0.87, 0, - 1, 0, 0.92, 0.25,
      - 0.34, 0, 0.94, 0, - 1, 0, 0.96, 0.33,
      - 0.17, 0, 0.98, 0, - 1, 0, 0.983, 0.41,
      0, 0, 1, 0, - 1, 0, 1, 0.5,
      0.17, 0, 0.98, 0, - 1, 0, 0.983, 0.6,
      0.34, 0, 0.94, 0, - 1, 0, 0.96, 0.68,
      0.5, 0, 0.87, 0, - 1, 0, 0.92, 0.77,
      0.64, 0, 0.77, 0, - 1, 0, 0.87, 0.83,
      0.77, 0, 0.64, 0, - 1, 0, 0.83, 0.87,
      0.87, 0, 0.5, 0, - 1, 0, 0.77, 0.92,
      0.94, 0, 0.34, 0, - 1, 0, 0.68, 0.96,
      0.98, 0, 0.17, 0, - 1, 0, 0.6, 0.983]"

definition TaperedCylinder_top :: "real list" where
  "TaperedCylinder_top =
     [0.5, 1, 0, 0, 1, 0, 0.5, 1,
      0.49, 1, - 0.085, 0, 1, 0, 0.41, 0.983,
      0.47, 1, - 0.17, 0, 1, 0, 0.33, 0.96,
      0.435, 1, - 0.25, 0, 1, 0, 0.25, 0.92,
      0.385, 1, - 0.32, 0, 1, 0, 0.17, 0.87,
      0.32, 1, - 0.385, 0, 1, 0, 0.13, 0.83,
      0.25, 1, - 0.435, 0, 1, 0, 0.08, 0.77,
      0.17, 1, - 0.47, 0, 1, 0, 0.04, 0.68,
      0.085, 1, - 0.49, 0, 1, 0, 0.017, 0.6,
      0, 1, - 0.5, 0, 1, 0, 0, 0.5,
      - 0.085, 1, - 0.49, 0, 1, 0, 0.017, 0.41,
      - 0.17, 1, - 0.47, 0, 1, 0, 0.04, 0.33,
      - 0.25, 1, - 0.435, 0, 1, 0, 0.08, 0.25,
      - 0.32, 1, - 0.385, 0, 1, 0, 0.13, 0.17,
      - 0.385, 1, - 0.32, 0, 1, 0, 0.17, 0.13,
      - 0.435, 1, - 0.25, 0, 1, 0, 0.25, 0.08,
      - 0.47, 1, - 0.17, 0, 1, 0, 0.33, 0.04,
      - 0.49, 1, - 0.085, 0, 1, 0, 0.41, 0.017,
      - 0.5, 1, 0, 0, 1, 0, 0.5, 0,
      - 0.49, 1, 0.085, 0, 1, 0, 0.6, 0.017,
      - 0.47, 1, 0.17, 0, 1, 0, 0.68, 0.04,
      - 0.435, 1, 0.25, 0, 1, 0, 0.77, 0.08,
      - 0.385, 1, 0.32, 0, 1, 0, 0.83, 0.13,
      - 0.32, 1, 0.385, 0, 1, 0, 0.87, 0.17,
      - 0.25, 1, 0.435, 0, 1, 0, 0.92, 0.25,
      - 0.17, 1, 0.47, 0, 1, 0, 0.96, 0.33,
      - 0.085, 1, 0.49, 0, 1, 0, 0.983, 0.41,
      0, 1, 0.5, 0, 1, 0, 1, 0.5,
      0.085, 1, 0.49, 0, 1, 0, 0.983, 0.6,
      0.17, 1, 0.47, 0, 1, 0, 0.96, 0.68,
      0.25, 1, 0.435, 0, 1, 0, 0.92, 0.77,
      0.32, 1, 0.385, 0, 1, 0, 0.87, 0.83,
      0.385, 1, 0.32, 0, 1, 0, 0.83, 0.87,
      0.435, 1, 0.25, 0, 1, 0, 0.77, 0.92,
      0.47, 1, 0.17, 0, 1, 0, 0.68, 0.96,
      0.49, 1, 0.085, 0, 1, 0, 0.6, 0.983]"

definition TaperedCylinder_body :: "real list" where
  "TaperedCylinder_body =
     [0.5, 1, 0, 0.993150651, 0.5, - 0.116841137, 0.25, 1,
      1, 0, 0, 0.993150651, 0.5, - 0.116841137, 0, 0,
      0.98, 0, - 0.17, 0.993150651, 0.5, - 0.116841137, 0.0277, 0,
      0.5, 1, 0, 0.993150651, 0.5, - 0.116841137, 0.25, 1,
      0.49, 1, - 0.085, 0.993150651, 0.5, - 0.116841137, 0.2635, 1,
      0.98, 0, - 0.17, 0.993150651, 0.5, - 0.116841137, 0.0277, 0,
      0.94, 0, - 0.34, 0.993417103, 0.5, - 0.229039446, 0.0554, 0,
      0.49, 1, - 0.085, 0.993417103, 0.5, - 0.229039446, 0.2635, 1,
      0.47, 1, - 0.17, 0.993417103, 0.5, - 0.229039446, 0.277, 1,
      0.94, 0, - 0.34, 0.993417103, 0.5, - 0.229039446, 0.0554, 0,
      0.87, 0, - 0.5, 0.993417103, 0.5, - 0.229039446, 0.0831, 0,
      0.47, 1, - 0.17, 0.993417103, 0.5, - 0.229039446, 0.277, 1,
      0.435, 1, - 0.25, 0.813733339, 0.5, - 0.581238329, 0.2905, 1,
      0.87, 0, - 0.5, 0.813733339, 0.5, - 0.581238329, 0.0831, 0,
      0.77, 0, - 0.64, 0.813733339, 0.5, - 0.581238329, 0.1108, 0,
      0.435, 1, - 0.25, 0.813733339, 0.5, - 0.581238329, 0.2905, 1,
      0.385, 1, - 0.32, 0.813733339, 0.5, - 0.581238329, 0.304, 1,
      0.77, 0, - 0.64, 0.813733339, 0.5, - 0.581238329, 0.1108, 0,
      0.64, 0, - 0.77, 0.707106769, 0.5, - 0.707106769, 0.1385, 0,
      0.385, 1, - 0.32, 0.707106769, 0.5, - 0.707106769, 0.304, 1,
      0.32, 1, - 0.385, 0.707106769, 0.5, - 0.707106769, 0.3175, 1,
      0.64, 0, - 0.77, 0.707106769, 0.5, - 0.707106769, 0.1385, 0,
      0.5, 0, - 0.87, 0.707106769, 0.5, - 0.707106769, 0.1662, 0,
      0.32, 1, - 0.385, 0.707106769, 0.5, - 0.707106769, 0.3175, 1,
      0.25, 1, - 0.435, 0.400818795, 0.5, - 0.916157305, 0.331, 1,
      0.5, 0, - 0.87, 0.400818795, 0.5, - 0.916157305, 0.1662, 0,
      0.34, 0, - 0.94, 0.400818795, 0.5, - 0.916157305, 0.1939, 0,
      0.25, 1, - 0.435, 0.400818795, 0.5, - 0.916157305, 0.331, 1,
      0.17, 1, - 0.47, 0.400818795, 0.5, - 0.916157305, 0.3445, 1,
      0.34, 0, - 0.94, 0.400818795, 0.5, - 0.916157305, 0.1939, 0,
      0.17, 0, - 0.98, 0.229039446, 0.5, - 0.973417103, 0.2216, 0,
      0.17, 1, - 0.47, 0.229039446, 0.5, - 0.973417103, 0.3445, 1,
      0.085, 1, - 0.49, 0.229039446, 0.5, - 0.973417103, 0.358, 1,
      0.17, 0, - 0.98, 0.229039446, 0.5, - 0.973417103, 0.2216, 0,
      0, 0, - 1, 0.229039446, 0.5, - 0.973417103, 0.2493, 0,
      0.085, 1, - 0.49, 0.229039446, 0.5, - 0.973417103, 0.358, 1,
      0, 1, - 0.5, - 0.116841137, 0.5, - 0.993150651, 0.3715, 1,
      0, 0, - 1, - 0.116841137, 0.5, - 0.993150651, 0.2493, 0,
      - 0.17, 0, - 0.98, - 0.116841137, 0.5, - 0.993150651, 0.277, 0,
      0, 1, - 0.5, - 0.116841137, 0.5, - 0.993150651, 0.3715, 1,
      - 0.085, 1, - 0.49, - 0.116841137, 0.5, - 0.993150651, 0.385, 1,
      - 0.17, 0, - 0.98, - 0.116841137, 0.5, - 0.993150651, 0.277, 0,
      - 0.34, 0, - 0.94, - 0.229039446, 0.5, - 0.973417103, 0.3047, 0,
      - 0.085, 1, - 0.49, - 0.229039446, 0.5, - 0.973417103, 0.385, 1,
      - 0.17, 1, - 0.47, - 0.229039446, 0.5, - 0.973417103, 0.3985, 1,
      - 0.34, 0, - 0.94, - 0.229039446, 0.5, - 0.973417103, 0.3047, 0,
      - 0.5, 0, - 0.87, - 0.229039446, 0.5, - 0.973417103, 0.3324, 0,
      - 0.17, 1, - 0.47, - 0.229039446, 0.5, - 0.973417103, 0.3985, 1,
      - 0.25, 1, - 0.435, - 0.581238329, 0.5, - 0.581238329, 0.412, 1,
      - 0.5, 0, - 0.87, - 0.581238329, 0.5, - 0.581238329, 0.3324, 0,
      - 0.64, 0, - 0.77, - 0.581238329, 0.5, - 0.581238329, 0.3601, 0,
      - 0.25, 1, - 0.435, - 0.581238329, 0.5, - 0.581238329, 0.412, 1,
      - 0.32, 1, - 0.385, - 0.581238329, 0.5, - 0.581238329, 0.4255, 1,
      - 0.64, 0, - 0.77, - 0.581238329, 0.5, - 0.581238329, 0.3601, 0,
      - 0.77, 0, - 0.64, - 0.707106769, 0.5, - 0.707106769, 0.3878, 0,
      - 0.32, 1, - 0.385, - 0.707106769, 0.5, - 0.707106769, 0.4255, 1,
      - 0.385, 1, - 0.32, - 0.707106769, 0.5, - 0.707106769, 0.439, 1,
      - 0.77, 0, - 0.64, - 0.707106769, 0.5, - 0.707106769, 0.3878, 0,
      - 0.87, 0, - 0.5, - 0.707106769, 0.5, - 0.707106769, 0.4155, 0,
      - 0.385, 1, - 0.32, - 0.707106769, 0.5, - 0.707106769, 0.439, 1,
      - 0.435, 1, - 0.25, - 0.916157305, 0.5, - 0.400818795, 0.4525, 1,
      - 0.87, 0, - 0.5, - 0.916157305, 0.5, - 0.400818795, 0.4155, 0,
      - 0.94, 0, - 0.34, - 0.916157305, 0.5, - 0.400818795, 0.4432, 0,
      - 0.435, 1, - 0.25, - 0.916157305, 0.5, - 0.400818795, 0.4525, 1,
      - 0.47, 1, - 0.17, - 0.916157305, 0.5, - 0.400818795, 0.466, 1,
      - 0.94, 0, - 0.34, - 0.916157305, 0.5, - 0.400818795, 0.4432, 0,
      - 0.98, 0, - 0.17, - 0.973417103, 0.5, - 0.229039446, 0.4709, 0,
      - 0.47, 1, - 0.17, - 0.973417103, 0.5, - 0.229039446, 0.466, 1,
      - 0.49, 1, - 0.085, - 0.973417103, 0.5, - 0.229039446, 0.4795, 1,
      - 0.98, 0, - 0.17, - 0.973417103, 0.5, - 0.229039446, 0.4709, 0,
      - 1, 0, 0, - 0.973417103, 0.5, - 0.229039446, 0.4986, 0,
      - 0.49, 1, - 0.085, - 0.973417103, 0.5, - 0.229039446, 0.4795, 1,
      - 0.5, 1, 0, - 0.993150651, 0.5, - 0.116841137, 0.493, 1,
      - 1, 0, 0, - 0.993150651, 0.5, - 0.116841137, 0.4986, 0,
      - 0.98, 0, 0.17, - 0.993150651, 0.5, 0.116841137, 0.5263, 0,
      - 0.5, 1, 0, - 0.993150651, 0.5, 0.116841137, 0.493, 1,
      - 0.49, 1, 0.085, - 0.993150651, 0.5, 0.116841137, 0.5065, 1,
      - 0.98, 0, 0.17, - 0.993150651, 0.5, 0.116841137, 0.5263, 0,
      - 0.94, 0, 0.34, - 0.973417103, 0.5, 0.229039446, 0.554, 0,
      - 0.49, 1, 0.085, - 0.973417103, 0.5, 0.229039446, 0.5065, 1,
      - 0.47, 1, 0.17, - 0.973417103, 0.5, 0.229039446, 0.52, 1,
      - 0.94, 0, 0.34, - 0.973417103, 0.5, 0.229039446, 0.554, 0,
      - 0.87, 0, 0.5, - 0.973417103, 0.5, 0.229039446, 0.5817, 0,
      - 0.47, 1, 0.17, - 0.973417103, 0.5, 0.229039446, 0.52, 1,
      - 0.435, 1, 0.25, - 0.813733339, 0.5, 0.581238329, 0.5335, 1,
      - 0.87, 0, 0.5, - 0.813733339, 0.5, 0.581238329, 0.5817, 0,
      - 0.77, 0, 0.64, - 0.813733339, 0.5, 0.581238329, 0.6094, 0,
      - 0.435, 1, 0.25, - 0.813733339, 0.5, 0.581238329, 0.5335, 1,
      - 0.385, 1, 0.32, - 0.813733339, 0.5, 0.581238329, 0.547, 1,
      - 0.77, 0, 0.64, - 0.813733339, 0.5, 0.581238329, 0.6094, 0,
      - 0.64, 0, 0.77, - 0.707106769, 0.5, 0.707106769, 0.6371, 0,
      - 0.385, 1, 0.32, - 0.707106769, 0.5, 0.707106769, 0.547, 1,
      - 0.32, 1, 0.385, - 0.707106769, 0.5, 0.707106769, 0.5605, 1,
      - 0.64, 0, 0.77, - 0.707106769, 0.5, 0.707106769, 0.6371, 0,
      - 0.5, 0, 0.87, - 0.707106769, 0.5, 0.707106769, 0.6648, 0,
      - 0.32, 1, 0.385, - 0.707106769, 0.5, 0.707106769, 0.5605, 1,
      - 0.25, 1, 0.435, - 0.400818795, 0.5, 0.916157305, 0.574, 1,
      - 0.5, 0, 0.87, - 0.400818795, 0.5, 0.916157305, 0.6648, 0,
      - 0.34, 0, 0.94, - 0.400818795, 0.5, 0.916157305, 0.6925, 0,
      - 0.25, 1, 0.435, - 0.400818795, 0.5, 0.916157305, 0.574, 1,
      - 0.17, 1, 0.47, - 0.400818795, 0.5, 0.916157305, 0.5875, 1,
      - 0.34, 0, 0.94, - 0.400818795, 0.5, 0.916157305, 0.6925, 0,
      - 0.17, 0, 0.98, - 0.229039446, 0.5, 0.973417103, 0.7202, 0,
      - 0.17, 1, 0.47, - 0.229039446, 0.5, 0.973417103, 0.5875, 1,
      - 0.085, 1, 0.49, - 0.229039446, 0.5, 0.973417103, 0.601, 1,
      - 0.17, 0, 0.98, - 0.229039446, 0.5, 0.973417103, 0.7202, 0,
      0, 0, 1, - 0.229039446, 0.5, 0.973417103, 0.7479, 0,
      - 0.085, 1, 0.49, - 0.229039446, 0.5, 0.973417103, 0.601, 1,
      0, 1, 0.5, - 0.116841137, 0.5, 0.993150651, 0.6145, 1,
      0, 0, 1, - 0.116841137, 0.5, 0.993150651, 0.7479, 0,
      0.17, 0, 0.98, 0.116841137, 0.5, 0.993150651, 0.7756, 0,
      0, 1, 0.5, 0.116841137, 0.5, 0.993150651, 0.6145, 1,
      0.085, 1, 0.49, 0.116841137, 0.5, 0.993150651, 0.628, 1,
      0.17, 0, 0.98, 0.116841137, 0.5, 0.993150651, 0.7756, 0,
      0.34, 0, 0.94, 0.229039446, 0.5, 0.973417103, 0.8033, 0,
      0.085, 1, 0.49, 0.229039446, 0.5, 0.973417103, 0.628, 1,
      0.17, 1, 0.47, 0.229039446, 0.5, 0.973417103, 0.6415, 1,
      0.34, 0, 0.94, 0.229039446, 0.5, 0.973417103, 0.8033, 0,
      0.5, 0, 0.87, 0.229039446, 0.5, 0.973417103, 0.831, 0,
      0.17, 1, 0.47, 0.229039446, 0.5, 0.973417103, 0.6415, 1,
      0.25, 1, 0.435, 0.581238329, 0.5, 0.813733339, 0.655, 1,
      0.5, 0, 0.87, 0.581238329, 0.5, 0.813733339, 0.831, 0,
      0.64, 0, 0.77, 0.581238329, 0.5, 0.813733339, 0.8587, 0,
      0.25, 1, 0.435, 0.581238329, 0.5, 0.813733339, 0.655, 1,
      0.32, 1, 0.385, 0.581238329, 0.5, 0.813733339, 0.6685, 1,
      0.64, 0, 0.77, 0.581238329, 0.5, 0.813733339, 0.8587, 0,
      0.77, 0, 0.64, 0.707106769, 0.5, 0.707106769, 0.8864, 0,
      0.32, 1, 0.385, 0.707106769, 0.5, 0.707106769, 0.6685, 1,
      0.385, 1, 0.32, 0.707106769, 0.5, 0.707106769, 0.682, 1,
      0.77, 0, 0.64, 0.707106769, 0.5, 0.707106769, 0.8864, 0,
      0.87, 0, 0.5, 0.707106769, 0.5, 0.707106769, 0.9141, 0,
      0.385, 1, 0.32, 0.707106769, 0.5, 0.707106769, 0.682, 1,
      0.435, 1, 0.25, 0.916157305, 0.5, 0.400818795, 0.6955, 1,
      0.87, 0, 0.5, 0.916157305, 0.5, 0.400818795, 0.9141, 0,
      0.94, 0, 0.34, 0.916157305, 0.5, 0.400818795, 0.9418, 0,
      0.435, 1, 0.25, 0.916157305, 0.5, 0.400818795, 0.6955, 1,
      0.47, 1, 0.17, 0.916157305, 0.5, 0.400818795, 0.709, 1,
      0.94, 0, 0.34, 0.916157305, 0.5, 0.400818795, 0.9418, 1,
      0.98, 0, 0.17, 0.973417103, 0.5, 0.229039446, 0.9695, 0,
      0.47, 1, 0.17, 0.973417103, 0.5, 0.229039446, 0.709, 0,
      0.49, 1, 0.085, 0.973417103, 0.5, 0.229039446, 0.7225, 1,
      0.98, 0, 0.17, 0.973417103, 0.5, 0.229039446, 0.9695, 0,
      1, 0, 0, 0.973417103, 0.5, 0.229039446, 1, 0,
      0.49, 1, 0.085, 0.973417103, 0.5, 0.229039446, 0.7225, 1,
      0.5, 1, 0, 0.993150651, 0.5, 0.116841137, 0.75, 1,
      1, 0, 0, 0.993150651, 0.5, 0.116841137, 1, 0]"

definition TaperedCylinder_verts :: "real list" where
  "TaperedCylinder_verts = TaperedCylinder_bottom @ TaperedCylinder_top @ TaperedCylinder_body"

text \<open>\<open>sizeof(verts)\<close> and \<open>sizeof(verts[0])\<close> count bytes, four to a float.\<close>

definition LoadTaperedCylinderMesh :: GLMesh where
  "LoadTaperedCylinderMesh =
     \<lparr> vertex_buffer = TaperedCylinder_verts,
       index_buffer = [],
       nVertices = (4 * length TaperedCylinder_verts)
                     div (4 * (FloatsPerVertex + FloatsPerNormal + FloatsPerUV)),
       nIndices = 0 \<rparr>"

text \<open>
  A draw method is the list of the draw calls it issues.
  \<open>glDrawArrays mode first count\<close> reads the \<open>count\<close> vertices that start at \<open>first\<close>.
\<close>

datatype GLenum = GL_TRIANGLE_FAN | GL_TRIANGLE_STRIP

datatype draw_call = glDrawArrays GLenum int int

fun vertices_read :: "draw_call \<Rightarrow> int set" where
  "vertices_read (glDrawArrays mode first count) = {first ..< first + count}"

definition DrawTaperedCylinderMesh :: "bool \<Rightarrow> bool \<Rightarrow> bool \<Rightarrow> draw_call list" where
  "DrawTaperedCylinderMesh bDrawTop bDrawBottom bDrawSides =
     (if bDrawBottom = True then [glDrawArrays GL_TRIANGLE_FAN 0 36] else []) @
     (if bDrawTop = True then [glDrawArrays GL_TRIANGLE_FAN 36 72] else []) @
     (if bDrawSides = True then [glDrawArrays GL_TRIANGLE_STRIP 72 146] else [])"

text \<open>The vertices of each part of \<open>verts\<close>, as positions in the buffer.\<close>

definition TaperedCylinder_bottom_vertices :: "int set" where
  "TaperedCylinder_bottom_vertices = {0 ..< int (length TaperedCylinder_bottom div stride)}"

definition TaperedCylinder_top_vertices :: "int set" where
  "TaperedCylinder_top_vertices =
     {int (length TaperedCylinder_bottom div stride) ..<
      int (length TaperedCylinder_bottom div stride + length TaperedCylinder_top div stride)}"

definition TaperedCylinder_body_vertices :: "int set" where
  "TaperedCylinder_body_vertices =
     {int (length TaperedCylinder_bottom div stride + length TaperedCylinder_top div stride) ..<
      int (length TaperedCylinder_bottom div stride + length TaperedCylinder_top div stride
           + length TaperedCylinder_body div stride)}"

subsection \<open>LoadTorusMesh\<close>


definition TorusMesh_vertex :: "real \<Rightarrow> real \<Rightarrow> int \<Rightarrow> int \<Rightarrow> int \<Rightarrow> int \<Rightarrow> real list" where
  "TorusMesh_vertex mainRadius tubeRadius mainSegments tubeSegments i j =
     (let mainSegmentStep = 2 * Pi / real_of_int mainSegments;
          tubeSegmentStep = 2 * Pi / real_of_int tubeSegments;
          mainAngle = real_of_int i * mainSegmentStep;
          cosMain = cos mainAngle;
          sinMain = sin mainAngle;
          tubeAngle = real_of_int j * tubeSegmentStep;
          cosTube = cos tubeAngle;
          sinTube = sin tubeAngle;
          x = (mainRadius + tubeRadius * cosTube) * cosMain;
          y = (mainRadius + tubeRadius * cosTube) * sinMain;
          z = tubeRadius * sinTube;
          center = Vec3 (mainRadius * cosMain) (mainRadius * sinMain) 0;
          vertex = Vec3 x y z;
          normal = normalize (vec3_sub vertex center);
          u = real_of_int i / real_of_int mainSegments;
          v = real_of_int j / real_of_int tubeSegments
      in [x, y, z, vx normal, vy normal, vz normal, u, v])"

definition TorusMesh_quad :: "int \<Rightarrow> int \<Rightarrow> int \<Rightarrow> int list" where
  "TorusMesh_quad tubeSegments i j =
     (let current = i * (tubeSegments + 1) + j;
          next = (i + 1) * (tubeSegments + 1) + j
      in [current, next, current + 1, current + 1, next, next + 1])"




section \<open>Predicates and concrete inputs used by the statements\<close>

text \<open>
  A file loads when \<open>stbi_load\<close> decodes it and the image has 3 or 4 channels; every
  other file makes \<open>CreateGLTexture\<close> fail.
\<close>

definition decodable :: "env \<Rightarrow> string \<Rightarrow> bool" where
  "decodable e filename =
     (case stbi_load e filename of
        None \<Rightarrow> False
      | Some img \<Rightarrow> img_colorChannels img = 3 \<or> img_colorChannels img = 4)"

fun is_ortho :: "mat4 \<Rightarrow> bool" where
  "is_ortho (ortho l r b t n f) = True"
| "is_ortho m = False"

fun is_perspective :: "mat4 \<Rightarrow> bool" where
  "is_perspective (perspective fovy aspect n f) = True"
| "is_perspective m = False"

text \<open>
  The check of one face of the box, as a function that can be evaluated: every vertex of
  the face has an axis-aligned unit normal, all vertices of the face lie in the plane
  through the centroid that is perpendicular to it, and it points away from the centre.
\<close>

definition box_face_ok :: "nat \<Rightarrow> bool" where
  "box_face_ok f =
     list_all (\<lambda>k.
        axis_unit (vertex_normal BoxMesh_verts k) \<and>
        list_all (\<lambda>k'. dot (vertex_normal BoxMesh_verts k) (vertex_position BoxMesh_verts k') =
                       dot (vertex_normal BoxMesh_verts k)
                           (centroid BoxMesh_verts (face_vertices LoadBoxMesh f)))
                 (face_vertices LoadBoxMesh f) \<and>
        0 < dot (vertex_normal BoxMesh_verts k) (centroid BoxMesh_verts (face_vertices LoadBoxMesh f)))
       (face_vertices LoadBoxMesh f)"

text \<open>A registry with four loaded textures, two tags used twice.\<close>

definition registry_example :: SceneManager where
  "registry_example =
     \<lparr> m_textureIDs = [\<lparr> tag = ''floor'', ID = 1 \<rparr>, \<lparr> tag = ''soda1'', ID = 2 \<rparr>,
                       \<lparr> tag = ''floor'', ID = 3 \<rparr>, \<lparr> tag = ''soda1'', ID = 4 \<rparr>]
                      @ replicate 12 \<lparr> tag = ''/0'', ID = - 1 \<rparr>,
       m_loadedTextures = 4,
       m_objectMaterials = [] \<rparr>"

definition materials_example :: SceneManager where
  "materials_example =
     SceneManager_init\<lparr> m_objectMaterials :=
       [\<lparr> diffuseColor = Vec3 0.45 0.45 0.45, specularColor = Vec3 0.12 0.12 0.12,
          shininess = 8, mtag = ''floor'' \<rparr>] \<rparr>"

definition material_unset :: OBJECT_MATERIAL where
  "material_unset =
     \<lparr> diffuseColor = Vec3 7 7 7, specularColor = Vec3 9 9 9, shininess = 5, mtag = ''unset'' \<rparr>"

text \<open>
  A file system with one missing file and one greyscale image; every other file is an
  RGBA image. Texture names are handed out from 1.
\<close>

definition env_example :: env where
  "env_example =
     \<lparr> stbi_load = (\<lambda>filename.
         if filename = ''textures/missing.png'' then None
         else if filename = ''textures/grey.png''
           then Some \<lparr> img_width = 64, img_height = 64, img_colorChannels = 1 \<rparr>
         else Some \<lparr> img_width = 512, img_height = 256, img_colorChannels = 4 \<rparr>),
       gl_name = (\<lambda>k. word_of_nat (k + 1)) \<rparr>"

definition keys_example :: "key \<Rightarrow> bool" where
  "keys_example k = (k = KEY_W \<or> k = KEY_I)"

section \<open>Properties of SceneManager\<close>

subsection \<open>The texture lookups\<close>

lemma FindTextureSlot_loop_found:
  "FindTextureSlot_loop s t r index True = Inr r"
  by (subst FindTextureSlot_loop.simps) simp

lemma FindTextureID_loop_found:
  "FindTextureID_loop s t r index True = Inr r"
  by (subst FindTextureID_loop.simps) simp

lemma FindTexture_loops_scan:
  assumes "m_loadedTextures s \<le> int (length (m_textureIDs s))"
    and "0 \<le> index"
    and "\<forall>j. 0 \<le> j \<and> j < index \<longrightarrow> tag (m_textureIDs s ! nat j) \<noteq> t"
    and "\<not> bFound" and "r = - 1"
  shows "\<exists>slot. FindTextureSlot_loop s t r index bFound = Inr slot \<and>
           FindTextureID_loop s t r index bFound =
             Inr (if slot = - 1 then - 1 else sint (ID (m_textureIDs s ! nat slot))) \<and>
           (if \<exists>i. 0 \<le> i \<and> i < m_loadedTextures s \<and> tag (m_textureIDs s ! nat i) = t
            then 0 \<le> slot \<and> slot < m_loadedTextures s \<and> tag (m_textureIDs s ! nat slot) = t \<and>
                 (\<forall>j. 0 \<le> j \<and> j < slot \<longrightarrow> tag (m_textureIDs s ! nat j) \<noteq> t)
            else slot = - 1)"
  using assms
proof (induction s t r index bFound rule: FindTextureSlot_loop.induct)
  case (1 s t textureSlot index bFound)
  show ?case
  proof (cases "index < m_loadedTextures s")
    case False
    then have "FindTextureSlot_loop s t textureSlot index bFound = Inr (- 1)"
      using "1.prems" by (subst FindTextureSlot_loop.simps) simp
    moreover have "FindTextureID_loop s t textureSlot index bFound = Inr (- 1)"
      using False "1.prems" by (subst FindTextureID_loop.simps) simp
    moreover have "\<not> (\<exists>i. 0 \<le> i \<and> i < m_loadedTextures s \<and> tag (m_textureIDs s ! nat i) = t)"
      using False "1.prems"(3) by force
    ultimately show ?thesis by simp
  next
    case True
    then have inb: "0 \<le> index \<and> index < int (length (m_textureIDs s))"
      using "1.prems" by linarith
    show ?thesis
    proof (cases "tag (m_textureIDs s ! nat index) = t")
      case hit: True
      have "FindTextureSlot_loop s t textureSlot index bFound = Inr index"
        using True inb hit "1.prems"(4)
        by (subst FindTextureSlot_loop.simps) (simp add: FindTextureSlot_loop_found)
      moreover have "FindTextureID_loop s t textureSlot index bFound =
                     Inr (sint (ID (m_textureIDs s ! nat index)))"
        using True inb hit "1.prems"(4)
        by (subst FindTextureID_loop.simps) (simp add: FindTextureID_loop_found)
      moreover have "\<exists>i. 0 \<le> i \<and> i < m_loadedTextures s \<and> tag (m_textureIDs s ! nat i) = t"
        using True hit inb by blast
      moreover have "index \<noteq> - 1" using inb by linarith
      ultimately show ?thesis
        using True hit inb "1.prems"(3) by simp
    next
      case miss: False
      have step: "FindTextureSlot_loop s t textureSlot index bFound =
                  FindTextureSlot_loop s t textureSlot (index + 1) bFound"
        using True inb miss "1.prems"(4)
        by (subst FindTextureSlot_loop.simps) simp
      have step': "FindTextureID_loop s t textureSlot index bFound =
                  FindTextureID_loop s t textureSlot (index + 1) bFound"
        using True inb miss "1.prems"(4)
        by (subst FindTextureID_loop.simps) simp
      have "\<forall>j. 0 \<le> j \<and> j < index + 1 \<longrightarrow> tag (m_textureIDs s ! nat j) \<noteq> t"
      proof (intro allI impI)
        fix j assume j: "0 \<le> j \<and> j < index + 1"
        then have "j < index \<or> j = index" by linarith
        then show "tag (m_textureIDs s ! nat j) \<noteq> t"
          using miss "1.prems"(3) j by auto
      qed
      then show ?thesis
        using "1.IH"(2) True inb miss "1.prems" step step' by simp
    qed
  qed
qed

text \<open>
  C7. Let the registry hold its loaded textures within the array
  (\<open>m_loadedTextures\<close> at most the array's length). For every tag, \<open>FindTextureSlot\<close>
  returns a slot: when some loaded texture (index from 0, below \<open>m_loadedTextures\<close>) has
  the tag, the slot is the index of the first of them; when none has, it is -1.
  \<open>FindTextureID\<close> returns -1 in the same case and otherwise the ID stored in that
  slot, converted to \<open>int\<close>.
\<close>

theorem FindTextureSlot_first_match:
  assumes "m_loadedTextures s \<le> int (length (m_textureIDs s))"
  shows "\<exists>slot. FindTextureSlot s t = Inr slot \<and>
           FindTextureID s t =
             Inr (if slot = - 1 then - 1 else sint (ID (m_textureIDs s ! nat slot))) \<and>
           (if \<exists>i. 0 \<le> i \<and> i < m_loadedTextures s \<and> tag (m_textureIDs s ! nat i) = t
            then 0 \<le> slot \<and> slot < m_loadedTextures s \<and> tag (m_textureIDs s ! nat slot) = t \<and>
                 (\<forall>j. 0 \<le> j \<and> j < slot \<longrightarrow> tag (m_textureIDs s ! nat j) \<noteq> t)
            else slot = - 1)"
  unfolding FindTextureSlot_def FindTextureID_def
  by (rule FindTexture_loops_scan [OF assms]) auto

lemma FindTextureSlot_loop_hit:
  "index < m_loadedTextures s \<Longrightarrow> 0 \<le> index \<Longrightarrow> index < int (length (m_textureIDs s)) \<Longrightarrow>
   tag (m_textureIDs s ! nat index) = t \<Longrightarrow> FindTextureSlot_loop s t r index False = Inr index"
  by (subst FindTextureSlot_loop.simps) (simp add: FindTextureSlot_loop_found)

lemma FindTextureSlot_loop_miss:
  "index < m_loadedTextures s \<Longrightarrow> 0 \<le> index \<Longrightarrow> index < int (length (m_textureIDs s)) \<Longrightarrow>
   tag (m_textureIDs s ! nat index) \<noteq> t \<Longrightarrow>
   FindTextureSlot_loop s t r index False = FindTextureSlot_loop s t r (index + 1) False"
  by (subst FindTextureSlot_loop.simps) simp

theorem FindTextureSlot_first_match_witness:
  "m_loadedTextures registry_example \<le> int (length (m_textureIDs registry_example)) \<and>
   FindTextureSlot registry_example ''soda1'' = Inr 1 \<and>
   FindTextureID registry_example ''soda1'' = Inr 2 \<and>
   FindTextureSlot registry_example ''linen'' = Inr (- 1) \<and>
   FindTextureID registry_example ''linen'' = Inr (- 1)"
proof -
  have h: "m_loadedTextures registry_example \<le> int (length (m_textureIDs registry_example))"
    by (simp add: registry_example_def)
  have a: "FindTextureSlot registry_example ''soda1'' = Inr 1"
    unfolding FindTextureSlot_def
    by (simp add: FindTextureSlot_loop_miss FindTextureSlot_loop_hit registry_example_def)
  have b: "FindTextureSlot registry_example ''linen'' = Inr (- 1)"
    unfolding FindTextureSlot_def
    apply (simp add: FindTextureSlot_loop_miss registry_example_def)
    apply (subst FindTextureSlot_loop.simps) apply simp done
  from FindTextureSlot_first_match [OF h, of "''soda1''"] a
  have c: "FindTextureID registry_example ''soda1'' = Inr 2"
    by (simp add: registry_example_def)
  from FindTextureSlot_first_match [OF h, of "''linen''"] b
  have d: "FindTextureID registry_example ''linen'' = Inr (- 1)"
    by simp
  show ?thesis using h a b c d by simp
qed

subsection \<open>FindMaterial\<close>

lemma FindMaterial_loop_no_match:
  "\<forall>i. index \<le> i \<and> i < length mats \<longrightarrow> mtag (mats ! i) \<noteq> t \<Longrightarrow> \<not> bFound \<Longrightarrow>
   FindMaterial_loop mats t material index bFound = material"
proof (induction mats t material index bFound rule: FindMaterial_loop.induct)
  case (1 mats t material index bFound)
  show ?case
  proof (cases "index < length mats")
    case False
    then show ?thesis by (subst FindMaterial_loop.simps) simp
  next
    case True
    then have miss: "mtag (mats ! index) \<noteq> t" using "1.prems"(1) by simp
    have "FindMaterial_loop mats t material index bFound =
          FindMaterial_loop mats t material (index + 1) bFound"
      using True miss "1.prems"(2) by (subst FindMaterial_loop.simps) simp
    then show ?thesis
      using "1.IH"(2) True miss "1.prems" by simp
  qed
qed

text \<open>
  C8. \<open>FindMaterial\<close> returns false exactly when the materials list is empty. For
  every non-empty list it returns true, also when no material has the tag, and in that
  case the output material is the one passed in.
\<close>

theorem FindMaterial_true_without_match:
  "(fst (FindMaterial s t material) = False \<longleftrightarrow> m_objectMaterials s = []) \<and>
   (m_objectMaterials s \<noteq> [] \<longrightarrow> fst (FindMaterial s t material) = True) \<and>
   (m_objectMaterials s \<noteq> [] \<and> (\<forall>m \<in> set (m_objectMaterials s). mtag m \<noteq> t) \<longrightarrow>
      FindMaterial s t material = (True, material))"
proof -
  have "FindMaterial_loop (m_objectMaterials s) t material 0 False = material"
    if "\<forall>m \<in> set (m_objectMaterials s). mtag m \<noteq> t"
    using that by (intro FindMaterial_loop_no_match) simp_all
  then show ?thesis
    by (simp add: FindMaterial_def)
qed

theorem FindMaterial_true_without_match_witness:
  "m_objectMaterials materials_example \<noteq> [] \<and>
   FindMaterial materials_example ''leather'' material_unset = (True, material_unset) \<and>
   fst (FindMaterial SceneManager_init ''leather'' material_unset) = False"
  using FindMaterial_true_without_match [of materials_example "''leather''" material_unset]
    FindMaterial_true_without_match [of SceneManager_init "''leather''" material_unset]
  by (simp add: materials_example_def SceneManager_init_def)

subsection \<open>CreateGLTexture\<close>

text \<open>
  C3. When the file cannot be decoded, or its channel count is neither 3 nor 4,
  \<open>CreateGLTexture\<close> returns false for every file name, tag and state. The scene
  manager, so \<open>m_loadedTextures\<close> and every entry of \<open>m_textureIDs\<close>, is as before, and
  so are the texture units. All that changes is the log, which gets "Could not load
  image" for an undecodable file and the two lines "Successfully loaded image" and "Not
  implemented to handle image" for an unsupported channel count, and in the second case
  the count of generated texture names, as \<open>glGenTextures\<close> has run. The result is a
  plain \<open>bool\<close>: there is no second attempt and no error value.
\<close>

theorem CreateGLTexture_failure_leaves_registry:
  assumes "\<not> decodable e filename"
  shows "\<exists>w'. CreateGLTexture e filename tg w = Inr (False, w') \<and>
           scene w' = scene w \<and>
           m_loadedTextures (scene w') = m_loadedTextures (scene w) \<and>
           m_textureIDs (scene w') = m_textureIDs (scene w) \<and>
           (case stbi_load e filename of
              None \<Rightarrow> w' = w\<lparr> cout := cout w @ [CouldNotLoadImage filename] \<rparr>
            | Some img \<Rightarrow>
                w' = w\<lparr> cout := cout w @
                           [SuccessfullyLoadedImage filename (img_width img) (img_height img)
                              (img_colorChannels img),
                            NotImplementedChannels (img_colorChannels img)],
                        gl_generated := gl_generated w + 1,
                        gl_bound := (gl_bound w)(gl_active w := gl_name e (gl_generated w)) \<rparr>)"
  using assms
  by (auto simp: CreateGLTexture_def decodable_def Let_def glBindTexture_def split: option.splits)

theorem CreateGLTexture_failure_leaves_registry_witness:
  "\<not> decodable env_example ''textures/missing.png'' \<and>
   \<not> decodable env_example ''textures/grey.png'' \<and>
   CreateGLTexture env_example ''textures/missing.png'' ''floor'' world_init =
     Inr (False, world_init\<lparr> cout := [CouldNotLoadImage ''textures/missing.png''] \<rparr>) \<and>
   (\<exists>w'. CreateGLTexture env_example ''textures/grey.png'' ''floor'' world_init = Inr (False, w') \<and>
         scene w' = SceneManager_init \<and>
         cout w' = [SuccessfullyLoadedImage ''textures/grey.png'' 64 64 1, NotImplementedChannels 1])"
proof -
  have a: "\<not> decodable env_example ''textures/missing.png''"
    by (simp add: decodable_def env_example_def)
  have b: "\<not> decodable env_example ''textures/grey.png''"
    by (simp add: decodable_def env_example_def)
  have c: "CreateGLTexture env_example ''textures/missing.png'' ''floor'' world_init =
     Inr (False, world_init\<lparr> cout := [CouldNotLoadImage ''textures/missing.png''] \<rparr>)"
    by (simp add: CreateGLTexture_def env_example_def world_init_def)
  from CreateGLTexture_failure_leaves_registry [OF b, of "''floor''" world_init]
  have d: "\<exists>w'. CreateGLTexture env_example ''textures/grey.png'' ''floor'' world_init = Inr (False, w') \<and>
         scene w' = SceneManager_init \<and>
         cout w' = [SuccessfullyLoadedImage ''textures/grey.png'' 64 64 1, NotImplementedChannels 1]"
    by (auto simp: env_example_def world_init_def)
  show ?thesis using a b c d by simp
qed

lemma TEXTURE_INFO_overwrite:
  "(r :: TEXTURE_INFO)\<lparr> ID := a, tag := b \<rparr> = \<lparr> tag = b, ID = a \<rparr>"
  by (cases r) simp

lemma CreateGLTexture_success:
  assumes "decodable e filename"
    and "0 \<le> m_loadedTextures (scene w)"
    and "m_loadedTextures (scene w) < int (length (m_textureIDs (scene w)))"
  shows "\<exists>w'. CreateGLTexture e filename tg w = Inr (True, w') \<and>
           m_loadedTextures (scene w') = m_loadedTextures (scene w) + 1 \<and>
           m_textureIDs (scene w') =
             (m_textureIDs (scene w))[nat (m_loadedTextures (scene w)) :=
                \<lparr> tag = tg, ID = gl_name e (gl_generated w) \<rparr>]"
  using assms
  by (auto simp: CreateGLTexture_def decodable_def Let_def TEXTURE_INFO_overwrite
           glBindTexture_def split: option.splits)

lemma CreateGLTexture_overflow:
  assumes "decodable e filename"
    and "int (length (m_textureIDs (scene w))) \<le> m_loadedTextures (scene w)"
  shows "CreateGLTexture e filename tg w = Inl OutOfBounds"
  using assms
  by (auto simp: CreateGLTexture_def decodable_def Let_def glBindTexture_def split: option.splits)

lemma CreateGLTexture_counts:
  assumes "CreateGLTexture e filename tg w = Inr (b, w')"
  shows "m_loadedTextures (scene w') = m_loadedTextures (scene w) + (if b then 1 else 0) \<and>
         length (m_textureIDs (scene w')) = length (m_textureIDs (scene w))"
  using assms
  by (auto simp: CreateGLTexture_def Let_def glBindTexture_def split: option.splits if_splits)

lemma scene_bind_units:
  "scene (fold (\<lambda>i w. glBindTexture (ID (ids ! i)) (glActiveTexture i w)) units w) = scene w"
  by (induction units arbitrary: w) (simp_all add: glBindTexture_def glActiveTexture_def)

lemma BindGLTextures_scene:
  "m_loadedTextures (scene w) \<le> int (length (m_textureIDs (scene w))) \<Longrightarrow>
   \<exists>w'. BindGLTextures w = Inr w' \<and> scene w' = scene w"
  by (simp add: BindGLTextures_def Let_def scene_bind_units)

lemma CreateGLTextures_counts:
  "CreateGLTextures e calls w = Inr (bs, w') \<Longrightarrow>
   m_loadedTextures (scene w') = m_loadedTextures (scene w) + int (length (filter id bs)) \<and>
   length bs = length calls \<and>
   length (m_textureIDs (scene w')) = length (m_textureIDs (scene w))"
proof (induction calls arbitrary: w bs)
  case Nil
  then show ?case by simp
next
  case (Cons c calls)
  obtain filename tg where c: "c = (filename, tg)" by (cases c)
  from Cons.prems c obtain b w1 bs1 where
    one: "CreateGLTexture e filename tg w = Inr (b, w1)" and
    rest: "CreateGLTextures e calls w1 = Inr (bs1, w')" and
    bs: "bs = b # bs1"
    by (auto split: sum.splits prod.splits)
  from CreateGLTexture_counts [OF one] Cons.IH [OF rest] bs
  show ?case by auto
qed

lemma CreateGLTextures_all_succeed:
  "\<forall>c \<in> set calls. decodable e (fst c) \<Longrightarrow>
   0 \<le> m_loadedTextures (scene w) \<Longrightarrow>
   m_loadedTextures (scene w) + int (length calls) \<le> int (length (m_textureIDs (scene w))) \<Longrightarrow>
   \<exists>w'. CreateGLTextures e calls w = Inr (replicate (length calls) True, w')"
proof (induction calls arbitrary: w)
  case Nil
  then show ?case by simp
next
  case (Cons c calls)
  obtain filename tg where c: "c = (filename, tg)" by (cases c)
  have dec: "decodable e filename" using Cons.prems(1) c by simp
  have lt: "m_loadedTextures (scene w) < int (length (m_textureIDs (scene w)))"
    using Cons.prems(3) by simp
  from CreateGLTexture_success [OF dec Cons.prems(2) lt, of tg] obtain w1 where
    one: "CreateGLTexture e filename tg w = Inr (True, w1)" and
    n1: "m_loadedTextures (scene w1) = m_loadedTextures (scene w) + 1" and
    ids1: "m_textureIDs (scene w1) =
             (m_textureIDs (scene w))[nat (m_loadedTextures (scene w)) :=
                \<lparr> tag = tg, ID = gl_name e (gl_generated w) \<rparr>]"
    by blast
  have "\<exists>w'. CreateGLTextures e calls w1 = Inr (replicate (length calls) True, w')"
    using Cons.prems n1 ids1 by (intro Cons.IH) auto
  then show ?case using one c by auto
qed

text \<open>
  C10. \<open>CreateGLTexture\<close> writes the entry at index \<open>m_loadedTextures\<close> and tests no
  bound. With fewer than 16 textures loaded in the array of 16, a successful load writes
  inside the array, at that index, and adds one to \<open>m_loadedTextures\<close>. After any run of
  calls from the constructor's state, \<open>m_loadedTextures\<close> is the number of calls that
  returned true. \<open>LoadSceneTextures\<close> makes 16 calls; when all 16 files load, it ends
  with \<open>m_loadedTextures\<close> = 16, the array's length, and one more successful load from
  there is an access out of bounds.
\<close>

theorem CreateGLTexture_fills_registry:
  "(decodable e filename \<and> 0 \<le> m_loadedTextures (scene w) \<and>
    m_loadedTextures (scene w) < int TEXTURE_SLOTS \<and>
    length (m_textureIDs (scene w)) = TEXTURE_SLOTS \<longrightarrow>
      (\<exists>w'. CreateGLTexture e filename tg w = Inr (True, w') \<and>
            m_loadedTextures (scene w') = m_loadedTextures (scene w) + 1 \<and>
            m_textureIDs (scene w') =
              (m_textureIDs (scene w))[nat (m_loadedTextures (scene w)) :=
                 \<lparr> tag = tg, ID = gl_name e (gl_generated w) \<rparr>])) \<and>
   (CreateGLTextures e calls world_init = Inr (bs, wend) \<longrightarrow>
      length bs = length calls \<and>
      m_loadedTextures (scene wend) = int (length (filter id bs))) \<and>
   length scene_textures = TEXTURE_SLOTS \<and>
   ((\<forall>c \<in> set scene_textures. decodable e (fst c)) \<longrightarrow>
      (\<exists>w'. LoadSceneTextures e world_init = Inr w' \<and>
            m_loadedTextures (scene w') = int TEXTURE_SLOTS \<and>
            length (m_textureIDs (scene w')) = TEXTURE_SLOTS \<and>
            (decodable e filename \<longrightarrow> CreateGLTexture e filename tg w' = Inl OutOfBounds)))"
proof (intro conjI impI)
  assume "decodable e filename \<and> 0 \<le> m_loadedTextures (scene w) \<and>
    m_loadedTextures (scene w) < int TEXTURE_SLOTS \<and>
    length (m_textureIDs (scene w)) = TEXTURE_SLOTS"
  then show "\<exists>w'. CreateGLTexture e filename tg w = Inr (True, w') \<and>
            m_loadedTextures (scene w') = m_loadedTextures (scene w) + 1 \<and>
            m_textureIDs (scene w') =
              (m_textureIDs (scene w))[nat (m_loadedTextures (scene w)) :=
                 \<lparr> tag = tg, ID = gl_name e (gl_generated w) \<rparr>]"
    by (intro CreateGLTexture_success) simp_all
next
  assume run: "CreateGLTextures e calls world_init = Inr (bs, wend)"
  from CreateGLTextures_counts [OF run]
  show "length bs = length calls"
    and "m_loadedTextures (scene wend) = int (length (filter id bs))"
    by (simp_all add: world_init_def SceneManager_init_def)
next
  show "length scene_textures = TEXTURE_SLOTS"
    by (simp add: scene_textures_def TEXTURE_SLOTS_def)
next
  assume all: "\<forall>c \<in> set scene_textures. decodable e (fst c)"
  have len: "length scene_textures = 16" by (simp add: scene_textures_def)
  have "\<exists>w'. CreateGLTextures e scene_textures world_init =
               Inr (replicate (length scene_textures) True, w')"
    using all len
    by (intro CreateGLTextures_all_succeed)
       (simp_all add: world_init_def SceneManager_init_def TEXTURE_SLOTS_def)
  then obtain w2 where
    run: "CreateGLTextures e scene_textures world_init = Inr (replicate 16 True, w2)"
    using len by auto
  from CreateGLTextures_counts [OF run]
  have n: "m_loadedTextures (scene w2) = 16" and l: "length (m_textureIDs (scene w2)) = 16"
    by (simp_all add: world_init_def SceneManager_init_def TEXTURE_SLOTS_def)
  from BindGLTextures_scene [of w2] n l obtain w3 where
    bind: "BindGLTextures w2 = Inr w3" and sc: "scene w3 = scene w2"
    by auto
  have load: "LoadSceneTextures e world_init = Inr w3"
    using run bind by (simp add: LoadSceneTextures_def)
  have "decodable e filename \<longrightarrow> CreateGLTexture e filename tg w3 = Inl OutOfBounds"
    using n l sc by (auto intro!: CreateGLTexture_overflow)
  then show "\<exists>w'. LoadSceneTextures e world_init = Inr w' \<and>
            m_loadedTextures (scene w') = int TEXTURE_SLOTS \<and>
            length (m_textureIDs (scene w')) = TEXTURE_SLOTS \<and>
            (decodable e filename \<longrightarrow> CreateGLTexture e filename tg w' = Inl OutOfBounds)"
    using load n l sc by (simp add: TEXTURE_SLOTS_def)
qed

theorem CreateGLTexture_fills_registry_witness:
  "decodable env_example ''textures/extra.png'' \<and>
   list_all (\<lambda>c. decodable env_example (fst c)) scene_textures \<and>
   (\<exists>w'. CreateGLTexture env_example ''textures/extra.png'' ''extra'' world_init = Inr (True, w') \<and>
         m_loadedTextures (scene w') = 1) \<and>
   (\<exists>w'. LoadSceneTextures env_example world_init = Inr w' \<and>
         m_loadedTextures (scene w') = 16 \<and>
         CreateGLTexture env_example ''textures/extra.png'' ''extra'' w' = Inl OutOfBounds)"
proof -
  have d: "decodable env_example ''textures/extra.png''"
    by (simp add: decodable_def env_example_def)
  have all: "\<forall>c \<in> set scene_textures. decodable env_example (fst c)"
    by (simp add: scene_textures_def decodable_def env_example_def)
  from CreateGLTexture_fills_registry
         [where e = env_example and filename = "''textures/extra.png''" and tg = "''extra''"
            and w = world_init and calls = "[]" and bs = "[]" and wend = world_init] d all
  show ?thesis
    by (auto simp: list_all_iff world_init_def SceneManager_init_def TEXTURE_SLOTS_def)
qed

section \<open>Properties of the camera and of ViewManager\<close>

lemma Pitch_updateCameraVectors [simp]: "Pitch (updateCameraVectors c) = Pitch c"
  by (simp add: updateCameraVectors_def Let_def)

lemma MouseSensitivity_updateCameraVectors [simp]:
  "MouseSensitivity (updateCameraVectors c) = MouseSensitivity c"
  by (simp add: updateCameraVectors_def Let_def)

lemma Pitch_ProcessMouseMovement:
  "Pitch (ProcessMouseMovement xoffset yoffset True c) =
     (let p = Pitch c + yoffset * MouseSensitivity c
      in if Finite 89 < p then Finite 89 else if p < Finite (- 89) then Finite (- 89) else p)"
  by (simp add: ProcessMouseMovement_def Let_def)

lemma clamp_not_NaN:
  assumes "p \<noteq> NaN"
  shows "Finite (- 89) \<le> (if Finite 89 < p then Finite 89 else if p < Finite (- 89) then Finite (- 89) else p) \<and>
         (if Finite 89 < p then Finite 89 else if p < Finite (- 89) then Finite (- 89) else p) \<le> Finite 89"
  using assms by (cases p) auto

lemma Pitch_ProcessMouseMovement_in_range:
  assumes "Pitch c + yoffset * MouseSensitivity c \<noteq> NaN"
  shows "Finite (- 89) \<le> Pitch (ProcessMouseMovement xoffset yoffset True c) \<and>
         Pitch (ProcessMouseMovement xoffset yoffset True c) \<le> Finite 89"
  unfolding Pitch_ProcessMouseMovement Let_def by (rule clamp_not_NaN [OF assms])

lemma Pitch_ProcessMouseMovement_NaN:
  assumes "Pitch c + yoffset * MouseSensitivity c = NaN"
  shows "Pitch (ProcessMouseMovement xoffset yoffset True c) = NaN"
  unfolding Pitch_ProcessMouseMovement Let_def using assms by simp

lemma mouse_movements_Cons:
  "mouse_movements (m # moves) c =
     mouse_movements moves (ProcessMouseMovement (fst m) (snd m) True c)"
  by (simp add: mouse_movements_def split: prod.splits)

lemma mouse_movements_pitch_invariant:
  "pitch_sums_not_NaN moves c \<Longrightarrow>
   Finite (- 89) \<le> Pitch c \<and> Pitch c \<le> Finite 89 \<Longrightarrow>
   Finite (- 89) \<le> Pitch (mouse_movements moves c) \<and> Pitch (mouse_movements moves c) \<le> Finite 89"
proof (induction moves arbitrary: c)
  case Nil
  then show ?case by (simp add: mouse_movements_def)
next
  case (Cons m moves)
  obtain xoffset yoffset where m: "m = (xoffset, yoffset)" by (cases m)
  from Cons.prems(1) m have
    sum: "Pitch c + yoffset * MouseSensitivity c \<noteq> NaN" and
    rest: "pitch_sums_not_NaN moves (ProcessMouseMovement xoffset yoffset True c)"
    by simp_all
  have "Finite (- 89) \<le> Pitch (ProcessMouseMovement xoffset yoffset True c) \<and>
        Pitch (ProcessMouseMovement xoffset yoffset True c) \<le> Finite 89"
    by (rule Pitch_ProcessMouseMovement_in_range [OF sum])
  from Cons.IH [OF rest this] show ?case
    unfolding mouse_movements_Cons m by simp
qed

lemma Camera_default_fields [simp]:
  "Pitch Camera_default = Finite 0" "MouseSensitivity Camera_default = Finite 0.1"
  by (simp_all add: Camera_default_def Camera_new_def)

lemma MouseSensitivity_ProcessMouseMovement [simp]:
  "MouseSensitivity (ProcessMouseMovement x y b c) = MouseSensitivity c"
  by (simp add: ProcessMouseMovement_def Let_def)

text \<open>
  C9, with the proviso it needs. Take any camera and any mouse movement with
  \<open>constrainPitch\<close> true. When the sum that the call stores in \<open>Pitch\<close>,
  \<open>Pitch + yoffset * MouseSensitivity\<close>, is not NaN, the pitch after
  \<open>ProcessMouseMovement\<close> is in [-89, 89]; infinite offsets and an infinite pitch are
  included. When the sum is NaN, both tests are false and the pitch after the call is
  NaN, so the proviso cannot be dropped. After a sequence of such calls in which no
  stored sum is NaN the pitch is in [-89, 89] as well: after a non-empty sequence from
  any camera, and after any sequence from a camera whose pitch was in the interval.
\<close>

theorem ProcessMouseMovement_pitch_clamped:
  "(Pitch c + yoffset * MouseSensitivity c \<noteq> NaN \<longrightarrow>
      Finite (- 89) \<le> Pitch (ProcessMouseMovement xoffset yoffset True c) \<and>
      Pitch (ProcessMouseMovement xoffset yoffset True c) \<le> Finite 89) \<and>
   (Pitch c + yoffset * MouseSensitivity c = NaN \<longrightarrow>
      Pitch (ProcessMouseMovement xoffset yoffset True c) = NaN) \<and>
   (pitch_sums_not_NaN moves c \<and>
    (moves \<noteq> [] \<or> (Finite (- 89) \<le> Pitch c \<and> Pitch c \<le> Finite 89)) \<longrightarrow>
      Finite (- 89) \<le> Pitch (mouse_movements moves c) \<and>
      Pitch (mouse_movements moves c) \<le> Finite 89)"
proof (intro conjI impI)
  assume "Pitch c + yoffset * MouseSensitivity c \<noteq> NaN"
  from Pitch_ProcessMouseMovement_in_range [OF this, of xoffset]
  show "Finite (- 89) \<le> Pitch (ProcessMouseMovement xoffset yoffset True c)"
    and "Pitch (ProcessMouseMovement xoffset yoffset True c) \<le> Finite 89"
    by simp_all
next
  assume "Pitch c + yoffset * MouseSensitivity c = NaN"
  then show "Pitch (ProcessMouseMovement xoffset yoffset True c) = NaN"
    by (rule Pitch_ProcessMouseMovement_NaN)
next
  assume h: "pitch_sums_not_NaN moves c \<and>
    (moves \<noteq> [] \<or> (Finite (- 89) \<le> Pitch c \<and> Pitch c \<le> Finite 89))"
  have "Finite (- 89) \<le> Pitch (mouse_movements moves c) \<and>
        Pitch (mouse_movements moves c) \<le> Finite 89"
  proof (cases moves)
    case Nil
    then show ?thesis using h by (simp add: mouse_movements_def)
  next
    case (Cons m rest)
    obtain xo yo where m: "m = (xo, yo)" by (cases m)
    from h Cons m have
      sum: "Pitch c + yo * MouseSensitivity c \<noteq> NaN" and
      rest: "pitch_sums_not_NaN rest (ProcessMouseMovement xo yo True c)"
      by simp_all
    have "Finite (- 89) \<le> Pitch (ProcessMouseMovement xo yo True c) \<and>
          Pitch (ProcessMouseMovement xo yo True c) \<le> Finite 89"
      by (rule Pitch_ProcessMouseMovement_in_range [OF sum])
    from mouse_movements_pitch_invariant [OF rest this] show ?thesis
      unfolding Cons mouse_movements_Cons m by simp
  qed
  then show "Finite (- 89) \<le> Pitch (mouse_movements moves c)"
    and "Pitch (mouse_movements moves c) \<le> Finite 89" by simp_all
qed

theorem ProcessMouseMovement_pitch_clamped_witness:
  "Pitch Camera_default + Finite 1000 * MouseSensitivity Camera_default \<noteq> NaN \<and>
   Pitch (ProcessMouseMovement (Finite 0) (Finite 1000) True Camera_default) = Finite 89 \<and>
   Pitch (ProcessMouseMovement (Finite 0) NegInf True Camera_default) = Finite (- 89) \<and>
   Pitch (ProcessMouseMovement (Finite 0) (Finite 1000) False Camera_default) = Finite 100 \<and>
   pitch_sums_not_NaN [(Finite 0, Finite 1000), (Finite 5, Finite (- 20000)), (Finite 3, Finite 100)]
     Camera_default \<and>
   Pitch (mouse_movements [(Finite 0, Finite 1000), (Finite 5, Finite (- 20000)), (Finite 3, Finite 100)]
            Camera_default) = Finite (- 79)"
proof -
  let ?moves = "[(Finite 0, Finite 1000), (Finite 5, Finite (- 20000)), (Finite 3, Finite 100)]"
  have a: "Pitch (ProcessMouseMovement (Finite 0) (Finite 1000) True Camera_default) = Finite 89"
    by (simp add: Pitch_ProcessMouseMovement fl_def FLT_OVERFLOW_def)
  have a': "Pitch (ProcessMouseMovement (Finite 0) NegInf True Camera_default) = Finite (- 89)"
    by (simp add: Pitch_ProcessMouseMovement fl_def FLT_OVERFLOW_def)
  have b: "Pitch (ProcessMouseMovement (Finite 0) (Finite 1000) False Camera_default) = Finite 100"
    by (simp add: ProcessMouseMovement_def Let_def fl_def FLT_OVERFLOW_def)
  have d: "pitch_sums_not_NaN ?moves Camera_default"
    by (simp add: Pitch_ProcessMouseMovement fl_def FLT_OVERFLOW_def)
  have c: "Pitch (mouse_movements ?moves Camera_default) = Finite (- 79)"
    by (simp add: mouse_movements_def Pitch_ProcessMouseMovement fl_def FLT_OVERFLOW_def)
  have n: "Pitch Camera_default + Finite 1000 * MouseSensitivity Camera_default \<noteq> NaN"
    by (simp add: fl_def FLT_OVERFLOW_def)
  from ProcessMouseMovement_pitch_clamped
         [of Camera_default "Finite 1000" "Finite 0" ?moves]
  show ?thesis using n a a' b c d by simp
qed

text \<open>
  C9 does not hold for every input. With \<open>yoffset\<close> NaN, on the default camera, the
  pitch after the call is NaN, which is not in [-89, 89]. No NaN argument is needed
  either: after an unconstrained call has taken the pitch to plus infinity, a
  constrained call with \<open>yoffset\<close> minus infinity adds opposite infinities.
\<close>

theorem ProcessMouseMovement_pitch_NaN:
  "Pitch (ProcessMouseMovement (Finite 0) NaN True Camera_default) = NaN \<and>
   \<not> (Finite (- 89) \<le> Pitch (ProcessMouseMovement (Finite 0) NaN True Camera_default) \<and>
      Pitch (ProcessMouseMovement (Finite 0) NaN True Camera_default) \<le> Finite 89) \<and>
   Pitch (ProcessMouseMovement (Finite 0) NegInf True
            (ProcessMouseMovement (Finite 0) PosInf False Camera_default)) = NaN"
  by (simp add: Pitch_ProcessMouseMovement ProcessMouseMovement_def Let_def)

lemma flag_key_action:
  "bOrthographicProjection (key_action k v) =
     (if k = KEY_O \<or> k = KEY_I \<or> k = KEY_U then True
      else if k = KEY_P then False
      else bOrthographicProjection v)"
  by (cases k) simp_all

lemma flag_ProcessKeyboardEvents:
  "bOrthographicProjection (ProcessKeyboardEvents pressed v) =
     (if pressed KEY_P then False
      else if pressed KEY_O \<or> pressed KEY_I \<or> pressed KEY_U then True
      else bOrthographicProjection v)"
  by (simp add: ProcessKeyboardEvents_def keys_in_order_def)

lemma flag_PrepareSceneView:
  "bOrthographicProjection (fst (PrepareSceneView sm t pressed v)) =
     (if pressed KEY_P then False
      else if pressed KEY_O \<or> pressed KEY_I \<or> pressed KEY_U then True
      else bOrthographicProjection v)"
  by (simp add: PrepareSceneView_def Let_def flag_ProcessKeyboardEvents)

lemma projection_PrepareSceneView:
  "PrepareSceneView sm t pressed v = (v', projection, uniforms) \<Longrightarrow>
   (is_ortho projection \<longleftrightarrow> bOrthographicProjection v') \<and>
   (is_perspective projection \<longleftrightarrow> \<not> bOrthographicProjection v')"
  by (cases "bOrthographicProjection (ProcessKeyboardEvents pressed
                (v\<lparr>gDeltaTime := t - gLastFrame v, gLastFrame := t\<rparr>))")
     (auto simp: PrepareSceneView_def Let_def)

lemma flag_step:
  "bOrthographicProjection (step e v) =
     (case e of
        Frame sm t pressed \<Rightarrow>
          (if pressed KEY_P then False
           else if pressed KEY_O \<or> pressed KEY_I \<or> pressed KEY_U then True
           else bOrthographicProjection v)
      | _ \<Rightarrow> bOrthographicProjection v)"
  by (cases e)
     (simp_all add: flag_PrepareSceneView Mouse_Button_Callback_def Let_def
        Mouse_Scroll_Wheel_Callback_def Mouse_Position_Callback_def Window_Resize_Callback_def)

text \<open>
  C6. \<open>bOrthographicProjection\<close> starts false. Processing the key O, I or U sets it to
  true, processing P sets it to false, and processing any other key leaves it. Of the
  events, only a frame changes it, and only by those keys (P, processed last, wins);
  the mouse and resize callbacks leave it. In every frame \<open>PrepareSceneView\<close> builds the
  projection with \<open>glm::ortho\<close> exactly when the flag, after the frame's keys, is true,
  and with \<open>glm::perspective\<close> exactly when it is false.
\<close>

theorem projection_mode_two_states:
  "bOrthographicProjection ViewManager_init = False \<and>
   bOrthographicProjection (key_action k v) =
     (if k = KEY_O \<or> k = KEY_I \<or> k = KEY_U then True
      else if k = KEY_P then False
      else bOrthographicProjection v) \<and>
   bOrthographicProjection (step e v) =
     (case e of
        Frame sm t pressed \<Rightarrow>
          (if pressed KEY_P then False
           else if pressed KEY_O \<or> pressed KEY_I \<or> pressed KEY_U then True
           else bOrthographicProjection v)
      | _ \<Rightarrow> bOrthographicProjection v) \<and>
   (PrepareSceneView shaderManager currentFrame pressed v = (v', projection, uniforms) \<longrightarrow>
      (is_ortho projection \<longleftrightarrow> bOrthographicProjection v') \<and>
      (is_perspective projection \<longleftrightarrow> \<not> bOrthographicProjection v'))"
proof (intro conjI)
  show "bOrthographicProjection ViewManager_init = False"
    by (simp add: ViewManager_init_def)
  show "bOrthographicProjection (key_action k v) =
     (if k = KEY_O \<or> k = KEY_I \<or> k = KEY_U then True
      else if k = KEY_P then False
      else bOrthographicProjection v)"
    by (rule flag_key_action)
  show "bOrthographicProjection (step e v) =
     (case e of
        Frame sm t pressed \<Rightarrow>
          (if pressed KEY_P then False
           else if pressed KEY_O \<or> pressed KEY_I \<or> pressed KEY_U then True
           else bOrthographicProjection v)
      | _ \<Rightarrow> bOrthographicProjection v)"
    by (rule flag_step)
  show "PrepareSceneView shaderManager currentFrame pressed v = (v', projection, uniforms) \<longrightarrow>
      (is_ortho projection \<longleftrightarrow> bOrthographicProjection v') \<and>
      (is_perspective projection \<longleftrightarrow> \<not> bOrthographicProjection v')"
    using projection_PrepareSceneView by blast
qed

theorem projection_mode_two_states_witness:
  "(\<exists>v' proj us. PrepareSceneView True (Finite 1) keys_example ViewManager_init = (v', proj, us) \<and>
      bOrthographicProjection v' \<and> is_ortho proj \<and> \<not> is_perspective proj) \<and>
   \<not> bOrthographicProjection (step (Frame True (Finite 2) (\<lambda>k. k = KEY_P))
        (step (MouseButton 1 1) (step (Frame True (Finite 1) keys_example) ViewManager_init)))"
proof -
  obtain v' proj us where
    p: "PrepareSceneView True (Finite 1) keys_example ViewManager_init = (v', proj, us)"
    by (cases "PrepareSceneView True (Finite 1) keys_example ViewManager_init") auto
  have f: "bOrthographicProjection v'"
    using flag_PrepareSceneView [of True "Finite 1" keys_example ViewManager_init] p
    by (simp add: keys_example_def)
  from projection_mode_two_states
         [where shaderManager = True and currentFrame = "Finite 1" and pressed = keys_example
            and v = ViewManager_init and v' = v' and projection = proj and uniforms = us] p f
  have a: "\<exists>v' proj us. PrepareSceneView True (Finite 1) keys_example ViewManager_init = (v', proj, us) \<and>
      bOrthographicProjection v' \<and> is_ortho proj \<and> \<not> is_perspective proj"
    by simp
  have b: "\<not> bOrthographicProjection (step (Frame True (Finite 2) (\<lambda>k. k = KEY_P))
        (step (MouseButton 1 1) (step (Frame True (Finite 1) keys_example) ViewManager_init)))"
    by (simp only: flag_step) simp
  show ?thesis using a b by blast
qed

section \<open>Properties of the meshes\<close>

subsection \<open>The box\<close>

lemmas box_eval =
  vertex_normal_def vertex_position_def centroid_def stride_def
  FloatsPerVertex_def FloatsPerNormal_def FloatsPerUV_def BoxMesh_verts_def
  dot_def vec3_add_def vec3_scale_def

lemma face_vertices_0: "face_vertices LoadBoxMesh 0 = [1, 0, 3, 2]"
  by (simp add: face_vertices_def LoadBoxMesh_def BoxMesh_indices_def)

lemma face_vertices_1: "face_vertices LoadBoxMesh 1 = [5, 4, 7, 6]"
  by (simp add: face_vertices_def LoadBoxMesh_def BoxMesh_indices_def)

lemma face_vertices_2: "face_vertices LoadBoxMesh 2 = [9, 8, 11, 10]"
  by (simp add: face_vertices_def LoadBoxMesh_def BoxMesh_indices_def)

lemma face_vertices_3: "face_vertices LoadBoxMesh 3 = [13, 12, 15, 14]"
  by (simp add: face_vertices_def LoadBoxMesh_def BoxMesh_indices_def)

lemma face_vertices_4: "face_vertices LoadBoxMesh 4 = [17, 16, 19, 18]"
  by (simp add: face_vertices_def LoadBoxMesh_def BoxMesh_indices_def)

lemma face_vertices_5: "face_vertices LoadBoxMesh 5 = [21, 20, 23, 22]"
  by (simp add: face_vertices_def LoadBoxMesh_def BoxMesh_indices_def)

lemma box_face_0: "box_face_ok 0"
  unfolding box_face_ok_def face_vertices_0 by (simp add: box_eval)

lemma box_face_1: "box_face_ok 1"
  unfolding box_face_ok_def face_vertices_1 by (simp add: box_eval)

lemma box_face_2: "box_face_ok 2"
  unfolding box_face_ok_def face_vertices_2 by (simp add: box_eval)

lemma box_face_3: "box_face_ok 3"
  unfolding box_face_ok_def face_vertices_3 by (simp add: box_eval)

lemma box_face_4: "box_face_ok 4"
  unfolding box_face_ok_def face_vertices_4 by (simp add: box_eval)

lemma box_face_5: "box_face_ok 5"
  unfolding box_face_ok_def face_vertices_5 by (simp add: box_eval)

lemma less_6_cases: "f < 6 \<Longrightarrow> f = 0 \<or> f = 1 \<or> f = 2 \<or> f = 3 \<or> f = 4 \<or> f = (5::nat)"
  by arith

lemma box_faces_ok: "f < 6 \<Longrightarrow> box_face_ok f"
  using box_face_0 box_face_1 box_face_2 box_face_3 box_face_4 box_face_5
  by (auto dest!: less_6_cases)

lemma box_vertices_in_faces:
  "list_all (\<lambda>k. k \<in> set (face_vertices LoadBoxMesh (k div 4))) [0..<24]"
  by (simp add: upt_conv_Cons face_vertices_0 face_vertices_1 [unfolded One_nat_def] face_vertices_2
        face_vertices_3 face_vertices_4 face_vertices_5)

lemma box_vertex_in_face:
  "k < 24 \<Longrightarrow> k \<in> set (face_vertices LoadBoxMesh (k div 4))"
  using box_vertices_in_faces unfolding list_all_iff by simp

text \<open>
  C5. The box mesh has 24 vertices, and each belongs to one of the six faces that the
  index buffer draws. For every face and every vertex of it, the vertex's normal is an
  axis-aligned unit vector, it is perpendicular to the face (all vertices of the face
  have the same product with it as the face's centroid), and its product with the
  centroid of the face is positive: it points away from the centre of the box.
\<close>

theorem LoadBoxMesh_normals_outward:
  "nVertices LoadBoxMesh = 24 \<and>
   (\<forall>k < nVertices LoadBoxMesh. \<exists>f < 6. k \<in> set (face_vertices LoadBoxMesh f)) \<and>
   (\<forall>f < 6. \<forall>k \<in> set (face_vertices LoadBoxMesh f).
      axis_unit (vertex_normal (vertex_buffer LoadBoxMesh) k) \<and>
      (\<forall>k' \<in> set (face_vertices LoadBoxMesh f).
         dot (vertex_normal (vertex_buffer LoadBoxMesh) k) (vertex_position (vertex_buffer LoadBoxMesh) k') =
         dot (vertex_normal (vertex_buffer LoadBoxMesh) k)
             (centroid (vertex_buffer LoadBoxMesh) (face_vertices LoadBoxMesh f))) \<and>
      0 < dot (vertex_normal (vertex_buffer LoadBoxMesh) k)
              (centroid (vertex_buffer LoadBoxMesh) (face_vertices LoadBoxMesh f)))"
proof (intro conjI allI impI ballI)
  show n: "nVertices LoadBoxMesh = 24"
    by (simp add: LoadBoxMesh_def BoxMesh_verts_def FloatsPerVertex_def FloatsPerNormal_def
          FloatsPerUV_def)
  fix k assume "k < nVertices LoadBoxMesh"
  then have "k < 24" using n by simp
  then have "k div 4 < 6" and "k \<in> set (face_vertices LoadBoxMesh (k div 4))"
    using box_vertex_in_face by simp_all
  then show "\<exists>f < 6. k \<in> set (face_vertices LoadBoxMesh f)" by blast
next
  fix f k assume f: "f < 6" and k: "k \<in> set (face_vertices LoadBoxMesh f)"
  have buf: "vertex_buffer LoadBoxMesh = BoxMesh_verts" by (simp add: LoadBoxMesh_def)
  from box_faces_ok [OF f] k
  have ok: "axis_unit (vertex_normal BoxMesh_verts k) \<and>
        list_all (\<lambda>k'. dot (vertex_normal BoxMesh_verts k) (vertex_position BoxMesh_verts k') =
                       dot (vertex_normal BoxMesh_verts k) (centroid BoxMesh_verts (face_vertices LoadBoxMesh f)))
                 (face_vertices LoadBoxMesh f) \<and>
        0 < dot (vertex_normal BoxMesh_verts k) (centroid BoxMesh_verts (face_vertices LoadBoxMesh f))"
    unfolding box_face_ok_def list_all_iff by blast
  show "axis_unit (vertex_normal (vertex_buffer LoadBoxMesh) k)"
    using ok buf by simp
  show "0 < dot (vertex_normal (vertex_buffer LoadBoxMesh) k)
              (centroid (vertex_buffer LoadBoxMesh) (face_vertices LoadBoxMesh f))"
    using ok buf by simp
  fix k' assume "k' \<in> set (face_vertices LoadBoxMesh f)"
  then show "dot (vertex_normal (vertex_buffer LoadBoxMesh) k) (vertex_position (vertex_buffer LoadBoxMesh) k') =
         dot (vertex_normal (vertex_buffer LoadBoxMesh) k)
             (centroid (vertex_buffer LoadBoxMesh) (face_vertices LoadBoxMesh f))"
    using ok buf unfolding list_all_iff by simp
qed

theorem LoadBoxMesh_normals_outward_witness:
  "(5::nat) < 6 \<and> 23 \<in> set (face_vertices LoadBoxMesh 5) \<and>
   vertex_normal (vertex_buffer LoadBoxMesh) 23 = Vec3 0 0 1 \<and>
   centroid (vertex_buffer LoadBoxMesh) (face_vertices LoadBoxMesh 5) = Vec3 0 0 0.5 \<and>
   0 < dot (vertex_normal (vertex_buffer LoadBoxMesh) 23)
           (centroid (vertex_buffer LoadBoxMesh) (face_vertices LoadBoxMesh 5))"
proof -
  have a: "23 \<in> set (face_vertices LoadBoxMesh 5)" by (simp add: face_vertices_5)
  have b: "vertex_normal (vertex_buffer LoadBoxMesh) 23 = Vec3 0 0 1"
    by (simp add: LoadBoxMesh_def box_eval)
  have c: "centroid (vertex_buffer LoadBoxMesh) (face_vertices LoadBoxMesh 5) = Vec3 0 0 0.5"
    unfolding face_vertices_5 by (simp add: LoadBoxMesh_def box_eval)
  from LoadBoxMesh_normals_outward a
  have "0 < dot (vertex_normal (vertex_buffer LoadBoxMesh) 23)
           (centroid (vertex_buffer LoadBoxMesh) (face_vertices LoadBoxMesh 5))"
    by simp
  then show ?thesis using a b c by simp
qed

subsection \<open>The tapered cylinder\<close>

lemma TaperedCylinder_lengths:
  "length TaperedCylinder_bottom = 288" "length TaperedCylinder_top = 288"
  "length TaperedCylinder_body = 1168"
  by (simp_all add: TaperedCylinder_bottom_def TaperedCylinder_top_def TaperedCylinder_body_def)

text \<open>
  C2. \<open>LoadTaperedCylinderMesh\<close> stores 218 vertices: 36 of the bottom, 36 of the top,
  146 of the body. The draw calls of the bottom and of the sides read exactly their
  parts, and all calls together read exactly the 218 vertices of the buffer. The call
  for the top does not read exactly the top's vertices:
  \<open>glDrawArrays(GL_TRIANGLE_FAN, 36, 72)\<close> reads 72 vertices, the 36 of the top and the
  first 36 of the body. \<open>DrawTaperedCylinderMesh(true, false, true)\<close>, as the scene calls
  it, issues that call.
\<close>

theorem DrawTaperedCylinderMesh_top_overruns:
  "nVertices LoadTaperedCylinderMesh = 218 \<and>
   TaperedCylinder_bottom_vertices = {0 ..< 36} \<and>
   TaperedCylinder_top_vertices = {36 ..< 72} \<and>
   TaperedCylinder_body_vertices = {72 ..< 218} \<and>
   DrawTaperedCylinderMesh False True False = [glDrawArrays GL_TRIANGLE_FAN 0 36] \<and>
   DrawTaperedCylinderMesh True False False = [glDrawArrays GL_TRIANGLE_FAN 36 72] \<and>
   DrawTaperedCylinderMesh False False True = [glDrawArrays GL_TRIANGLE_STRIP 72 146] \<and>
   DrawTaperedCylinderMesh True False True =
     [glDrawArrays GL_TRIANGLE_FAN 36 72, glDrawArrays GL_TRIANGLE_STRIP 72 146] \<and>
   vertices_read (glDrawArrays GL_TRIANGLE_FAN 0 36) = TaperedCylinder_bottom_vertices \<and>
   vertices_read (glDrawArrays GL_TRIANGLE_STRIP 72 146) = TaperedCylinder_body_vertices \<and>
   vertices_read (glDrawArrays GL_TRIANGLE_FAN 36 72) = {36 ..< 108} \<and>
   vertices_read (glDrawArrays GL_TRIANGLE_FAN 36 72) \<noteq> TaperedCylinder_top_vertices \<and>
   vertices_read (glDrawArrays GL_TRIANGLE_FAN 36 72) =
     TaperedCylinder_top_vertices \<union> {72 ..< 108} \<and>
   {72 ..< 108} \<subseteq> TaperedCylinder_body_vertices \<and>
   \<Union> (set (map vertices_read (DrawTaperedCylinderMesh True True True)))
     = {0 ..< int (nVertices LoadTaperedCylinderMesh)}"
proof -
  have n: "nVertices LoadTaperedCylinderMesh = 218"
    by (simp add: LoadTaperedCylinderMesh_def TaperedCylinder_verts_def TaperedCylinder_lengths
          FloatsPerVertex_def FloatsPerNormal_def FloatsPerUV_def)
  have b: "TaperedCylinder_bottom_vertices = {0 ..< 36}"
    and t: "TaperedCylinder_top_vertices = {36 ..< 72}"
    and s: "TaperedCylinder_body_vertices = {72 ..< 218}"
    by (simp_all add: TaperedCylinder_bottom_vertices_def TaperedCylinder_top_vertices_def
          TaperedCylinder_body_vertices_def TaperedCylinder_lengths stride_def
          FloatsPerVertex_def FloatsPerNormal_def FloatsPerUV_def)
  have ne: "{36 ..< 108} \<noteq> {36 ..< (72::int)}"
  proof
    assume "{36 ..< 108} = {36 ..< (72::int)}"
    then have "(72::int) \<in> {36 ..< 72}" by auto
    then show False by simp
  qed
  have u: "{36 ..< 108} = {36 ..< 72} \<union> {72 ..< (108::int)}" by auto
  have all: "{0 ..< 36} \<union> ({36 ..< 108} \<union> {72 ..< 218}) = {0 ..< (218::int)}" by auto
  show ?thesis
    using ne u all by (simp add: n b t s DrawTaperedCylinderMesh_def)
qed

subsection \<open>Buffers filled by two nested loops\<close>

lemma length_concat_uniform:
  "(\<forall>x \<in> set xs. length x = n) \<Longrightarrow> length (concat xs) = length xs * n"
  by (induction xs) simp_all

lemma nth_concat_uniform:
  "(\<forall>x \<in> set xs. length x = n) \<Longrightarrow> k < length xs \<Longrightarrow> c < n \<Longrightarrow>
   concat xs ! (k * n + c) = xs ! k ! c"
proof (induction xs arbitrary: k)
  case Nil
  then show ?case by simp
next
  case (Cons x xs)
  show ?case
  proof (cases k)
    case 0
    then show ?thesis using Cons.prems by (simp add: nth_append)
  next
    case (Suc k')
    have "concat (x # xs) ! (k * n + c) = concat xs ! (k' * n + c)"
      using Cons.prems Suc by (simp add: nth_append)
    also have "\<dots> = xs ! k' ! c"
      using Cons.prems Suc by (intro Cons.IH) simp_all
    finally show ?thesis using Suc by simp
  qed
qed

text \<open>The buffer that two nested loops over [0..m] and [0..t] fill, n entries at a time.\<close>

lemma length_grid:
  assumes "\<And>i j. length (f i j) = n"
  shows "length (concat (map (\<lambda>i. concat (map (\<lambda>j. f i j) [0..t])) [0..m])) =
         nat (m + 1) * (nat (t + 1) * n)"
proof -
  have row: "length (concat (map (\<lambda>j. f i j) [0..t])) = nat (t + 1) * n" for i
    using assms by (subst length_concat_uniform [where n = n]) auto
  show ?thesis
    using row by (subst length_concat_uniform [where n = "nat (t + 1) * n"]) auto
qed

lemma nth_grid:
  assumes len: "\<And>i j. length (f i j) = n"
    and i: "0 \<le> i" "i \<le> m" and j: "0 \<le> j" "j \<le> t" and c: "c < n"
  shows "concat (map (\<lambda>i. concat (map (\<lambda>j. f i j) [0..t])) [0..m])
           ! ((nat i * nat (t + 1) + nat j) * n + c) = f i j ! c"
proof -
  let ?row = "\<lambda>i. concat (map (\<lambda>j. f i j) [0..t])"
  have rowlen: "length (?row i') = nat (t + 1) * n" for i'
    using len by (subst length_concat_uniform [where n = n]) auto
  have inner: "nat j * n + c < nat (t + 1) * n"
  proof -
    have "nat j + 1 \<le> nat (t + 1)" using j by linarith
    then have "(nat j + 1) * n \<le> nat (t + 1) * n" by (rule mult_le_mono1)
    then show ?thesis using c by (simp add: algebra_simps)
  qed
  have idx: "(nat i * nat (t + 1) + nat j) * n + c = nat i * (nat (t + 1) * n) + (nat j * n + c)"
    by (simp add: algebra_simps)
  have "concat (map ?row [0..m]) ! ((nat i * nat (t + 1) + nat j) * n + c) =
        concat (map ?row [0..m]) ! (nat i * (nat (t + 1) * n) + (nat j * n + c))"
    by (simp only: idx)
  also have "\<dots> = map ?row [0..m] ! nat i ! (nat j * n + c)"
    using rowlen i inner by (intro nth_concat_uniform) auto
  also have "\<dots> = ?row i ! (nat j * n + c)"
    using i by (simp add: nth_upto)
  also have "\<dots> = map (\<lambda>j. f i j) [0..t] ! nat j ! c"
    using len j c by (intro nth_concat_uniform) auto
  also have "\<dots> = f i j ! c"
    using j by (simp add: nth_upto)
  finally show ?thesis .
qed


subsection \<open>The sphere\<close>

lemma length_SphereMesh_vertex [simp]:
  "length (SphereMesh_vertex latS lonS r lat lon) = 8"
  by (simp add: SphereMesh_vertex_def Let_def)

lemma SphereMesh_vertex_normal:
  "SphereMesh_vertex latS lonS r lat lon ! 3 =
     sin (real_of_int lat * Pi / real_of_int latS) * cos (real_of_int lon * 2 * Pi / real_of_int lonS)"
  "SphereMesh_vertex latS lonS r lat lon ! 4 = cos (real_of_int lat * Pi / real_of_int latS)"
  "SphereMesh_vertex latS lonS r lat lon ! 5 =
     sin (real_of_int lat * Pi / real_of_int latS) * sin (real_of_int lon * 2 * Pi / real_of_int lonS)"
  by (simp_all add: SphereMesh_vertex_def Let_def)

lemma vertex_buffer_LoadSphereMesh:
  "vertex_buffer (LoadSphereMesh latS lonS r) =
     concat (map (\<lambda>lat. concat (map (\<lambda>lon. SphereMesh_vertex latS lonS r lat lon) [0..lonS])) [0..latS])"
  by (simp add: LoadSphereMesh_def Let_def)

lemma length_vertex_buffer_LoadSphereMesh:
  "length (vertex_buffer (LoadSphereMesh latS lonS r)) = nat (latS + 1) * (nat (lonS + 1) * 8)"
  unfolding vertex_buffer_LoadSphereMesh by (rule length_grid) simp

lemma nVertices_LoadSphereMesh:
  "nVertices (LoadSphereMesh latS lonS r) = nat (latS + 1) * nat (lonS + 1)"
proof -
  have "nVertices (LoadSphereMesh latS lonS r) = length (vertex_buffer (LoadSphereMesh latS lonS r)) div 8"
    by (simp add: LoadSphereMesh_def Let_def)
  then show ?thesis by (simp add: length_vertex_buffer_LoadSphereMesh)
qed

lemma unit_sphere_normal:
  "vec3_length (Vec3 (sin a * cos b) (cos a) (sin a * sin b)) = 1"
proof -
  have c: "(cos b)\<^sup>2 + (sin b)\<^sup>2 = 1" by simp
  have "(sin a * cos b)\<^sup>2 + (cos a)\<^sup>2 + (sin a * sin b)\<^sup>2
        = (sin a)\<^sup>2 * ((cos b)\<^sup>2 + (sin b)\<^sup>2) + (cos a)\<^sup>2"
    by algebra
  also have "\<dots> = (sin a)\<^sup>2 + (cos a)\<^sup>2" by (simp only: c mult_1_right)
  also have "\<dots> = 1" by simp
  finally have "(sin a * cos b) * (sin a * cos b) + cos a * cos a + (sin a * sin b) * (sin a * sin b) = 1"
    by (simp only: power2_eq_square)
  then show ?thesis by (simp only: vec3_length_def dot_def vec3.sel real_sqrt_one)
qed

lemma vertex_normal_LoadSphereMesh:
  assumes "0 \<le> lat" "lat \<le> latS" "0 \<le> lon" "lon \<le> lonS"
  shows "vertex_normal (vertex_buffer (LoadSphereMesh latS lonS r)) (nat lat * nat (lonS + 1) + nat lon) =
     Vec3 (sin (real_of_int lat * Pi / real_of_int latS) * cos (real_of_int lon * 2 * Pi / real_of_int lonS))
          (cos (real_of_int lat * Pi / real_of_int latS))
          (sin (real_of_int lat * Pi / real_of_int latS) * sin (real_of_int lon * 2 * Pi / real_of_int lonS))"
proof -
  let ?k = "nat lat * nat (lonS + 1) + nat lon"
  have e: "vertex_buffer (LoadSphereMesh latS lonS r) ! (?k * 8 + c) =
           SphereMesh_vertex latS lonS r lat lon ! c" if "c < 8" for c
    unfolding vertex_buffer_LoadSphereMesh using assms that
    by (intro nth_grid) simp_all
  have "stride * ?k + FloatsPerVertex = ?k * 8 + 3" "stride * ?k + FloatsPerVertex + 1 = ?k * 8 + 4"
    "stride * ?k + FloatsPerVertex + 2 = ?k * 8 + 5"
    by (simp_all add: stride_def FloatsPerVertex_def FloatsPerNormal_def FloatsPerUV_def)
  then show ?thesis
    unfolding vertex_normal_def by (simp only: e SphereMesh_vertex_normal)
qed

text \<open>
  C1. \<open>LoadSphereMesh\<close> with 8 latitude segments, 8 longitude segments and radius 1
  stores \<open>nVertices\<close> = (8 + 1) * (8 + 1) = 81, eight floats for each in the buffer. The
  normal of every vertex is (sinTheta * cosPhi, cosTheta, sinTheta * sinPhi) for the
  angles of its latitude and longitude, and its length is 1 (in real arithmetic, so
  within every epsilon).
\<close>

theorem LoadSphereMesh_8_8_1:
  "nVertices (LoadSphereMesh 8 8 1) = (8 + 1) * (8 + 1) \<and>
   nVertices (LoadSphereMesh 8 8 1) = 81 \<and>
   length (vertex_buffer (LoadSphereMesh 8 8 1)) = 8 * nVertices (LoadSphereMesh 8 8 1) \<and>
   (\<forall>k < nVertices (LoadSphereMesh 8 8 1).
      vertex_normal (vertex_buffer (LoadSphereMesh 8 8 1)) k =
        (let sinTheta = sin (real (k div 9) * Pi / 8); cosTheta = cos (real (k div 9) * Pi / 8);
             sinPhi = sin (real (k mod 9) * 2 * Pi / 8); cosPhi = cos (real (k mod 9) * 2 * Pi / 8)
         in Vec3 (sinTheta * cosPhi) cosTheta (sinTheta * sinPhi)) \<and>
      vec3_length (vertex_normal (vertex_buffer (LoadSphereMesh 8 8 1)) k) = 1)"
proof (intro conjI allI impI)
  show n: "nVertices (LoadSphereMesh 8 8 1) = 81" "nVertices (LoadSphereMesh 8 8 1) = (8 + 1) * (8 + 1)"
    by (simp_all add: nVertices_LoadSphereMesh)
  show "length (vertex_buffer (LoadSphereMesh 8 8 1)) = 8 * nVertices (LoadSphereMesh 8 8 1)"
    by (simp add: length_vertex_buffer_LoadSphereMesh nVertices_LoadSphereMesh)
  fix k assume "k < nVertices (LoadSphereMesh 8 8 1)"
  then have k: "k < 81" using n by simp
  have d: "k div 9 \<le> 8" using k by simp
  have kk: "k = nat (int (k div 9)) * nat (8 + 1) + nat (int (k mod 9))" by simp
  have nrm: "vertex_normal (vertex_buffer (LoadSphereMesh 8 8 1)) k =
     Vec3 (sin (real (k div 9) * Pi / 8) * cos (real (k mod 9) * 2 * Pi / 8))
          (cos (real (k div 9) * Pi / 8))
          (sin (real (k div 9) * Pi / 8) * sin (real (k mod 9) * 2 * Pi / 8))"
    apply (subst kk)
    apply (subst vertex_normal_LoadSphereMesh)
    using d by simp_all
  show "vertex_normal (vertex_buffer (LoadSphereMesh 8 8 1)) k =
        (let sinTheta = sin (real (k div 9) * Pi / 8); cosTheta = cos (real (k div 9) * Pi / 8);
             sinPhi = sin (real (k mod 9) * 2 * Pi / 8); cosPhi = cos (real (k mod 9) * 2 * Pi / 8)
         in Vec3 (sinTheta * cosPhi) cosTheta (sinTheta * sinPhi))"
    using nrm by (simp add: Let_def)
  show "vec3_length (vertex_normal (vertex_buffer (LoadSphereMesh 8 8 1)) k) = 1"
    unfolding nrm by (rule unit_sphere_normal)
qed

theorem LoadSphereMesh_8_8_1_witness:
  "(0::nat) < 81 \<and> vertex_normal (vertex_buffer (LoadSphereMesh 8 8 1)) 0 = Vec3 0 1 0 \<and>
   vec3_length (vertex_normal (vertex_buffer (LoadSphereMesh 8 8 1)) 0) = 1"
  using LoadSphereMesh_8_8_1 by (auto simp: Let_def vec3_length_def dot_def)

subsection \<open>The torus\<close>

lemma length_TorusMesh_vertex [simp]:
  "length (TorusMesh_vertex R r m t i j) = 8"
  by (simp add: TorusMesh_vertex_def Let_def)






lemma length_TorusMesh_quad [simp]: "length (TorusMesh_quad t i j) = 6"
  by (simp add: TorusMesh_quad_def Let_def)

















end
